theory Spec2Isabelle
  imports Complex_Main "HOL-Library.Signed_Division" "HOL-Library.AList"
begin

section \<open>Numbers and vectors\<close>

text \<open>
  A JavaScript \<open>number\<close> is modelled as a \<open>real\<close> and timestamps (\<open>Date.now()\<close>,
  milliseconds) as \<open>int\<close>. The arithmetic of the collision manager, on which the score
  depends, is the arithmetic of IEEE 754 doubles: every operation rounds its exact result
  to the nearest double (\<open>double\<close> below). The motion of the vehicle and of the agents is
  read as exact arithmetic. Only \<open>PhysicsWorld.update\<close> is analysed on values that are not
  numbers (NaN), with a datatype of its own below.
\<close>

text \<open>The nearest integer, a tie going to the even one.\<close>

definition round_even :: "real \<Rightarrow> real" where
  "round_even x =
     (let f = \<lfloor>x\<rfloor>; d = x - of_int f
      in if d < 1 / 2 then of_int f
         else if 1 / 2 < d then of_int (f + 1)
         else if even f then of_int f else of_int (f + 1))"

text \<open>
  Rounding to 53 significant bits. A positive \<open>x\<close> below \<open>2 ^ 52\<close> is doubled until it
  reaches \<open>2 ^ 52\<close>, rounded to an integer there and halved back; at most 1074 times, where
  the subnormal doubles, all multiples of \<open>2 ^ - 1074\<close>, begin. An \<open>x\<close> from \<open>2 ^ 53\<close> on is
  halved instead, at most 971 times: the largest doubles are multiples of \<open>2 ^ 971\<close>, and a
  result beyond them, which is \<open>Infinity\<close> in JavaScript, does not arise below (a quotient
  by 5 is smaller than its dividend, and the other results are at most 900).
\<close>

fun scale_up :: "nat \<Rightarrow> real \<Rightarrow> real" where
  "scale_up 0 x = round_even x"
| "scale_up (Suc n) x = (if x < 2 ^ 52 then scale_up n (x * 2) / 2 else round_even x)"

fun scale_down :: "nat \<Rightarrow> real \<Rightarrow> real" where
  "scale_down 0 x = round_even x"
| "scale_down (Suc n) x = (if 2 ^ 53 \<le> x then scale_down n (x / 2) * 2 else round_even x)"

definition double_pos :: "real \<Rightarrow> real" where
  "double_pos x = (if x < 2 ^ 53 then scale_up 1074 x else scale_down 971 x)"

definition double :: "real \<Rightarrow> real" where
  "double x = (if x = 0 then 0 else if x < 0 then - double_pos (- x) else double_pos x)"

text \<open>The operators \<open>+\<close>, \<open>-\<close>, \<open>*\<close>, \<open>/\<close> and \<open>Math.sqrt\<close> on doubles.\<close>

definition dadd :: "real \<Rightarrow> real \<Rightarrow> real" where
  "dadd a b = double (a + b)"

definition dsub :: "real \<Rightarrow> real \<Rightarrow> real" where
  "dsub a b = double (a - b)"

definition dmul :: "real \<Rightarrow> real \<Rightarrow> real" where
  "dmul a b = double (a * b)"

definition ddiv :: "real \<Rightarrow> real \<Rightarrow> real" where
  "ddiv a b = double (a / b)"

definition dsqrt :: "real \<Rightarrow> real" where
  "dsqrt a = double (sqrt a)"

text \<open>
  \<open>Math.round\<close>: the nearest integer, a tie going up; the result is exact, not the
  floor of a rounded sum.
\<close>

definition Math_round :: "real \<Rightarrow> int" where
  "Math_round v = \<lfloor>v + 1 / 2\<rfloor>"

datatype Vector3 = Vector3 (vx: real) (vy: real) (vz: real)

definition vsub :: "Vector3 \<Rightarrow> Vector3 \<Rightarrow> Vector3" where
  "vsub a b = Vector3 (vx a - vx b) (vy a - vy b) (vz a - vz b)"

definition vadd :: "Vector3 \<Rightarrow> Vector3 \<Rightarrow> Vector3" where
  "vadd a b = Vector3 (vx a + vx b) (vy a + vy b) (vz a + vz b)"

definition vlength :: "Vector3 \<Rightarrow> real" where
  "vlength a = sqrt (vx a * vx a + vy a * vy a + vz a * vz a)"

definition distanceTo :: "Vector3 \<Rightarrow> Vector3 \<Rightarrow> real" where
  "distanceTo a b = vlength (vsub a b)"

text \<open>\<open>Vector3.normalize\<close> of three.js divides by \<open>length() || 1\<close>.\<close>

definition normalize :: "Vector3 \<Rightarrow> Vector3" where
  "normalize a =
     (let l = (if vlength a = 0 then 1 else vlength a)
      in Vector3 (vx a / l) (vy a / l) (vz a / l))"

text \<open>
  The numbers that the collision manager reads from an event are doubles. A real that is
  not a double stands for the double nearest to it, as a numeric literal does in
  JavaScript: the manager reads a number \<open>x\<close> of an event as \<open>double x\<close> and a vector \<open>v\<close>
  as \<open>dvec v\<close>, which change nothing of a double.
\<close>

definition dvec :: "Vector3 \<Rightarrow> Vector3" where
  "dvec v = Vector3 (double (vx v)) (double (vy v)) (double (vz v))"

text \<open>\<open>Vec3.vsub\<close> and \<open>Vec3.length\<close> of cannon-es, on doubles.\<close>

definition cannon_vsub :: "Vector3 \<Rightarrow> Vector3 \<Rightarrow> Vector3" where
  "cannon_vsub a b = Vector3 (dsub (vx a) (vx b)) (dsub (vy a) (vy b)) (dsub (vz a) (vz b))"

definition cannon_length :: "Vector3 \<Rightarrow> real" where
  "cannon_length a =
     dsqrt (dadd (dadd (dmul (vx a) (vx a)) (dmul (vy a) (vy a))) (dmul (vz a) (vz a)))"

section \<open>CollisionManager\<close>

text \<open>The enum of the source; its member \<open>PROP\<close> is written \<open>PROP_OBJ\<close>, \<open>PROP\<close> being reserved.\<close>

datatype CollisionObjectType = VEHICLE | BUILDING | HUMAN_NPC | ANIMAL_NPC | PROP_OBJ | GROUND | MISC

text \<open>A \<open>CANNON.Body\<close>, as far as the collision pipeline reads it.\<close>

record Body =
  b_id :: nat
  b_position :: Vector3
  b_velocity :: Vector3

text \<open>
  A \<open>CANNON.ContactEquation\<close>: the value its \<open>getImpactVelocityAlongNormal()\<close> returns,
  the position of its body \<open>bi\<close> and the offset \<open>ri\<close>.
\<close>

record ContactEquation =
  impactVelocityAlongNormal :: real
  bi_position :: Vector3
  ri :: Vector3

text \<open>The event \<open>PhysicsWorld.checkCollisions\<close> hands to its callbacks.\<close>

record RawEvent =
  raw_bodyA :: Body
  raw_bodyB :: Body
  raw_contact :: "ContactEquation option"

record CollisionEvent =
  bodyA :: Body
  bodyB :: Body
  contact :: "ContactEquation option"
  target :: "nat option"
  targetType :: CollisionObjectType
  impactVelocity :: real
  collisionPoint :: Vector3

text \<open>
  A registered consumer callback: a name, to tell the callbacks apart in the record of
  calls, and whether it throws on a given event.
\<close>

record CollisionCallback =
  cb_name :: nat
  cb_throws :: "CollisionEvent \<Rightarrow> bool"

text \<open>
  The fields of the class, and two components of the JavaScript run time that the class
  drives: \<open>timers\<close>, the pending \<open>setTimeout\<close> callbacks of \<open>handleCollision\<close> (due time
  and the body identifier each one deletes from \<open>hitObjects\<close>), and \<open>invoked\<close>, the record
  of the consumer callbacks called so far, oldest first.
\<close>

record CollisionManager =
  vehicle :: "nat option"
  collisionCallbacks :: "CollisionCallback list"
  consecutiveHumanHits :: int
  lastHitTime :: int
  comboTimeWindow :: int
  score :: int
  objectTypes :: "nat \<rightharpoonup> CollisionObjectType"
  hitObjects :: "nat set"
  timers :: "(int \<times> nat) list"
  invoked :: "(nat \<times> CollisionEvent) list"

definition new_CollisionManager :: CollisionManager where
  "new_CollisionManager =
     \<lparr>vehicle = None, collisionCallbacks = [], consecutiveHumanHits = 0, lastHitTime = 0,
      comboTimeWindow = 5000, score = 0, objectTypes = Map.empty, hitObjects = {},
      timers = [], invoked = []\<rparr>"

definition registerObject :: "Body \<Rightarrow> CollisionObjectType \<Rightarrow> CollisionManager \<Rightarrow> CollisionManager" where
  "registerObject body ty s = s\<lparr>objectTypes := (objectTypes s)(b_id body \<mapsto> ty)\<rparr>"

definition setVehicle :: "Body \<Rightarrow> CollisionManager \<Rightarrow> CollisionManager" where
  "setVehicle vehicleBody s = registerObject vehicleBody VEHICLE (s\<lparr>vehicle := Some (b_id vehicleBody)\<rparr>)"

definition registerCollisionCallback :: "CollisionCallback \<Rightarrow> CollisionManager \<Rightarrow> CollisionManager" where
  "registerCollisionCallback callback s = s\<lparr>collisionCallbacks := collisionCallbacks s @ [callback]\<rparr>"

text \<open>
  \<open>processHumanCollision\<close>; \<open>now\<close> is the value of \<open>Date.now()\<close>. The popups and
  particle effects are calls into the rendering collaborators and leave no trace here.
  The score and the counter of hits are integers, on which the additions of doubles are
  exact up to \<open>2 ^ 53\<close>.
\<close>

definition processHumanCollision :: "int \<Rightarrow> CollisionEvent \<Rightarrow> CollisionManager \<Rightarrow> CollisionManager" where
  "processHumanCollision now event s =
     (if b_id (bodyB event) \<in> hitObjects s then s
      else
        let s1 = s\<lparr>hitObjects := insert (b_id (bodyB event)) (hitObjects s)\<rparr>;
            scoreBase = 100;
            speedMultiplier = min 3 (ddiv (double (impactVelocity event)) 5);
            scoreGain = Math_round (dmul scoreBase speedMultiplier);
            hits = consecutiveHumanHits s1 + 1;
            s2 = s1\<lparr>consecutiveHumanHits := hits, lastHitTime := now\<rparr>;
            scoreGain' =
              (if hits \<ge> 3
               then let comboMultiplier = min 3 (dadd 1 (dmul (dsub (real_of_int hits) 2) 0.5))
                    in Math_round (dmul (real_of_int scoreGain) comboMultiplier)
               else scoreGain)
        in s2\<lparr>score := score s2 + scoreGain'\<rparr>)"

definition processAnimalCollision :: "CollisionEvent \<Rightarrow> CollisionManager \<Rightarrow> CollisionManager" where
  "processAnimalCollision event s =
     (if b_id (bodyB event) \<in> hitObjects s then s
      else
        let s1 = s\<lparr>hitObjects := insert (b_id (bodyB event)) (hitObjects s)\<rparr>;
            s2 = s1\<lparr>score := score s1 - 200\<rparr>
        in s2\<lparr>consecutiveHumanHits := 0\<rparr>)"

text \<open>
  \<open>processCollision\<close>: buildings, props and every other type only create a debris
  effect, which changes nothing of the manager.
\<close>

definition processCollision :: "int \<Rightarrow> CollisionEvent \<Rightarrow> CollisionManager \<Rightarrow> CollisionManager" where
  "processCollision now event s =
     (case targetType event of
        HUMAN_NPC \<Rightarrow> processHumanCollision now event s
      | ANIMAL_NPC \<Rightarrow> processAnimalCollision event s
      | BUILDING \<Rightarrow> s
      | PROP_OBJ \<Rightarrow> s
      | _ \<Rightarrow> s)"

text \<open>
  \<open>collisionCallbacks.forEach(callback => callback(collisionEvent))\<close>: each call is
  recorded; a callback that throws ends the loop, and the exception leaves
  \<open>handleCollision\<close>, which has no handler.
\<close>

datatype completion = Returned | Thrown

fun forEach_callbacks :: "CollisionCallback list \<Rightarrow> CollisionEvent \<Rightarrow> (nat \<times> CollisionEvent) list \<times> completion" where
  "forEach_callbacks [] event = ([], Returned)"
| "forEach_callbacks (callback # rest) event =
     (if cb_throws callback event then ([(cb_name callback, event)], Thrown)
      else (let (calls, c) = forEach_callbacks rest event
            in ((cb_name callback, event) # calls, c)))"

text \<open>
  The three values \<open>handleCollision\<close> computes from the raw event before it looks at the
  hit set: the impact velocity (from the contact, or the length of the relative velocity
  when there is none), the pair (vehicle body, target body), and the collision point.
\<close>

definition impact_of :: "RawEvent \<Rightarrow> real" where
  "impact_of event =
     (case raw_contact event of
        Some c \<Rightarrow> double (impactVelocityAlongNormal c)
      | None \<Rightarrow>
          cannon_length (cannon_vsub (dvec (b_velocity (raw_bodyA event)))
                                     (dvec (b_velocity (raw_bodyB event)))))"

definition vehicle_and_target :: "CollisionManager \<Rightarrow> RawEvent \<Rightarrow> (Body \<times> Body) option" where
  "vehicle_and_target s event =
     (if objectTypes s (b_id (raw_bodyA event)) = Some VEHICLE
      then Some (raw_bodyA event, raw_bodyB event)
      else if objectTypes s (b_id (raw_bodyB event)) = Some VEHICLE
      then Some (raw_bodyB event, raw_bodyA event)
      else None)"


definition collisionPoint_of :: "RawEvent \<Rightarrow> Vector3" where
  "collisionPoint_of event =
     (case raw_contact event of
        Some c \<Rightarrow>
          (let p = dvec (bi_position c); r = dvec (ri c)
           in Vector3 (dadd (vx p) (vx r)) (dadd (vy p) (vy r)) (dadd (vz p) (vz r)))
      | None \<Rightarrow>
          (let a = dvec (b_position (raw_bodyA event)); b = dvec (b_position (raw_bodyB event))
           in Vector3 (ddiv (dadd (vx a) (vx b)) 2) (ddiv (dadd (vy a) (vy b)) 2)
                      (ddiv (dadd (vz a) (vz b)) 2)))"

text \<open>
  \<open>handleCollision\<close>. \<open>getMesh\<close> is \<open>PhysicsWorld.getMeshFromBody\<close>. The result is the
  manager afterwards and whether the call returned or threw; what was written before a
  callback threw stays written.
\<close>

definition handleCollision ::
  "int \<Rightarrow> (Body \<Rightarrow> nat option) \<Rightarrow> RawEvent \<Rightarrow> CollisionManager \<Rightarrow> CollisionManager \<times> completion" where
  "handleCollision now getMesh event s =
     (if vehicle s = None then (s, Returned)
      else if \<bar>impact_of event\<bar> < 1 then (s, Returned)
      else
        case vehicle_and_target s event of
          None \<Rightarrow> (s, Returned)
        | Some (vehicleBody, targetBody) \<Rightarrow>
            let tType = (case objectTypes s (b_id targetBody) of Some t \<Rightarrow> t | None \<Rightarrow> MISC);
                targetMesh = getMesh targetBody
            in if b_id targetBody \<in> hitObjects s then (s, Returned)
               else
                 let s1 = s\<lparr>hitObjects := insert (b_id targetBody) (hitObjects s),
                             timers := timers s @ [(now + 1000, b_id targetBody)]\<rparr>;
                     collisionEvent =
                       \<lparr>bodyA = raw_bodyA event, bodyB = raw_bodyB event,
                        contact = raw_contact event, target = targetMesh, targetType = tType,
                        impactVelocity = \<bar>impact_of event\<bar>,
                        collisionPoint = collisionPoint_of event\<rparr>;
                     s2 = processCollision now collisionEvent s1;
                     (calls, c) = forEach_callbacks (collisionCallbacks s2) collisionEvent
                 in (s2\<lparr>invoked := invoked s2 @ calls\<rparr>, c))"

text \<open>
  The event loop runs a timer. \<open>setTimeout\<close> promises a delay of at least 1000 ms and
  no more, so a timer runs at some time from its due time on, between two frames, and
  the timers of \<open>handleCollision\<close>, all of the same delay, run in the order in which they
  were set. \<open>run_timer\<close> runs the oldest pending timer if it is due at \<open>now\<close>, that is
  \<open>this.hitObjects.delete(targetBody.id)\<close>, and does nothing otherwise.
\<close>

definition run_timer :: "int \<Rightarrow> CollisionManager \<Rightarrow> CollisionManager" where
  "run_timer now s =
     (case timers s of
        [] \<Rightarrow> s
      | (due, i) # rest \<Rightarrow>
          if due \<le> now then s\<lparr>hitObjects := hitObjects s - {i}, timers := rest\<rparr> else s)"

text \<open>
  \<open>CollisionManager.update\<close>; nothing in its \<open>try\<close> block can throw. The remainder
  \<open>now % 1000\<close> of JavaScript takes the sign of \<open>now\<close>, as \<open>smod\<close> does.
\<close>

definition CollisionManager_update :: "int \<Rightarrow> CollisionManager \<Rightarrow> CollisionManager" where
  "CollisionManager_update now s =
     (let s1 = (if lastHitTime s > 0 \<and> now - lastHitTime s > comboTimeWindow s
                then s\<lparr>consecutiveHumanHits := 0\<rparr> else s)
      in if now smod 1000 < 20 then s1\<lparr>hitObjects := {}\<rparr> else s1)"

definition CollisionManager_reset :: "CollisionManager \<Rightarrow> CollisionManager" where
  "CollisionManager_reset s =
     s\<lparr>score := 0, consecutiveHumanHits := 0, lastHitTime := 0, hitObjects := {}\<rparr>"

text \<open>
  What reaches the manager in the course of the game, each at its time: a contact
  reported by the physics step, the per-frame \<open>update\<close>, or the event loop running a
  timer. An exception of a consumer callback is caught by the frame loop of the engine,
  so the run goes on from the state the call left.
\<close>

datatype Action = Contact RawEvent | Tick | Timeout

fun act :: "(Body \<Rightarrow> nat option) \<Rightarrow> int \<times> Action \<Rightarrow> CollisionManager \<Rightarrow> CollisionManager" where
  "act getMesh (now, Contact event) s = fst (handleCollision now getMesh event s)"
| "act getMesh (now, Tick) s = CollisionManager_update now s"
| "act getMesh (now, Timeout) s = run_timer now s"

fun run :: "(Body \<Rightarrow> nat option) \<Rightarrow> (int \<times> Action) list \<Rightarrow> CollisionManager \<Rightarrow> CollisionManager" where
  "run getMesh [] s = s"
| "run getMesh (a # as) s = run getMesh as (act getMesh a s)"



section \<open>PhysicsWorld\<close>

datatype Quaternion = Quaternion (qx: real) (qy: real) (qz: real) (qw: real)

text \<open>
  The objects that several classes hold references to and write: the \<open>CANNON.Body\<close>
  objects, by their \<open>id\<close>, and the three.js meshes, by an identifier of their own. Of a
  mesh, \<open>rotation.y\<close> is kept apart from the quaternion (three.js couples the two; nothing
  below reads either).
\<close>

record Objects =
  body_position :: "nat \<Rightarrow> Vector3"
  body_quaternion :: "nat \<Rightarrow> Quaternion"
  body_velocity :: "nat \<Rightarrow> Vector3"
  body_force :: "nat \<Rightarrow> Vector3"
  body_angularVelocity :: "nat \<Rightarrow> Vector3"
  mesh_position :: "nat \<Rightarrow> Vector3"
  mesh_quaternion :: "nat \<Rightarrow> Quaternion"
  mesh_rotation_y :: "nat \<Rightarrow> real"

text \<open>
  The class: \<open>world_bodies\<close> is the list of bodies of the \<open>CANNON.World\<close>;
  \<open>physicsBodies\<close>, a map from \<open>body.id\<close> to that body, is given by its keys;
  \<open>bodyMeshMap\<close> keeps the insertion order, which \<open>update\<close> iterates in.
\<close>

record PhysicsWorld =
  world_bodies :: "nat list"
  physicsBodies :: "nat set"
  meshBodyMap :: "nat \<rightharpoonup> nat"
  bodyMeshMap :: "(nat \<times> nat) list"
  debugMode :: bool
  debugScene :: "nat option"

definition new_PhysicsWorld :: PhysicsWorld where
  "new_PhysicsWorld =
     \<lparr>world_bodies = [], physicsBodies = {}, meshBodyMap = Map.empty, bodyMeshMap = [],
      debugMode = False, debugScene = None\<rparr>"

text \<open>\<open>World.addBody\<close> and \<open>World.removeBody\<close> of cannon-es, on the list of bodies.\<close>

definition world_addBody :: "nat \<Rightarrow> nat list \<Rightarrow> nat list" where
  "world_addBody b bs = (if b \<in> set bs then bs else bs @ [b])"

definition world_removeBody :: "nat \<Rightarrow> nat list \<Rightarrow> nat list" where
  "world_removeBody b bs = remove1 b bs"

definition addBody :: "nat \<Rightarrow> nat option \<Rightarrow> PhysicsWorld \<Rightarrow> PhysicsWorld" where
  "addBody b mesh_opt w =
     (let w1 = w\<lparr>world_bodies := world_addBody b (world_bodies w),
                 physicsBodies := insert b (physicsBodies w)\<rparr>
      in case mesh_opt of
           Some m \<Rightarrow> w1\<lparr>meshBodyMap := (meshBodyMap w1)(m \<mapsto> b),
                        bodyMeshMap := AList.update b m (bodyMeshMap w1)\<rparr>
         | None \<Rightarrow> w1)"

text \<open>The argument of \<open>removeBody\<close>: a \<open>CANNON.Body\<close> or a \<open>THREE.Object3D\<close>.\<close>

datatype BodyOrMesh = ABody nat | AMesh nat

fun removeBody :: "BodyOrMesh \<Rightarrow> PhysicsWorld \<Rightarrow> PhysicsWorld" where
  "removeBody (ABody b) w =
     (let w1 = w\<lparr>world_bodies := world_removeBody b (world_bodies w),
                 physicsBodies := physicsBodies w - {b}\<rparr>
      in case map_of (bodyMeshMap w1) b of
           Some m \<Rightarrow> w1\<lparr>meshBodyMap := (meshBodyMap w1)(m := None),
                        bodyMeshMap := AList.delete b (bodyMeshMap w1)\<rparr>
         | None \<Rightarrow> w1)"
| "removeBody (AMesh m) w =
     (case meshBodyMap w m of
        Some physicsBody \<Rightarrow>
          w\<lparr>world_bodies := world_removeBody physicsBody (world_bodies w),
            physicsBodies := physicsBodies w - {physicsBody},
            meshBodyMap := (meshBodyMap w)(m := None),
            bodyMeshMap := AList.delete physicsBody (bodyMeshMap w)\<rparr>
      | None \<Rightarrow> w)"

definition getMeshFromBody :: "PhysicsWorld \<Rightarrow> Body \<Rightarrow> nat option" where
  "getMeshFromBody w b = map_of (bodyMeshMap w) (b_id b)"

text \<open>
  The argument of \<open>PhysicsWorld.update\<close> is any JavaScript number; \<open>deltaTime > 0\<close> is
  false of NaN.
\<close>

datatype number = NaN | Finite real | PosInfinity | NegInfinity

fun gt_zero :: "number \<Rightarrow> bool" where
  "gt_zero NaN = False"
| "gt_zero (Finite r) = (r > 0)"
| "gt_zero PosInfinity = True"
| "gt_zero NegInfinity = False"

text \<open>The loop of \<open>update\<close> over \<open>bodyMeshMap\<close>: each mesh takes the pose of its body.\<close>

definition sync_mesh :: "Objects \<Rightarrow> nat \<times> nat \<Rightarrow> Objects" where
  "sync_mesh st bm =
     (case bm of (b, m) \<Rightarrow>
        st\<lparr>mesh_position := (mesh_position st)(m := body_position st b),
           mesh_quaternion := (mesh_quaternion st)(m := body_quaternion st b)\<rparr>)"

section \<open>Vehicle\<close>

record ControlState =
  forward :: bool
  backward :: bool
  left :: bool
  right :: bool
  brake :: bool
  handbrake :: bool

record Vehicle =
  v_mesh :: nat
  v_body :: nat
  maxSpeed :: real
  acceleration :: real
  turnSpeed :: real
  brakeForce :: real
  velocity :: real
  direction :: real


text \<open>
  \<open>Vehicle.applyControls\<close>: each statement of the method as a step, named after its
  comment in the source, and the method as their sequence.
\<close>

definition apply_acceleration :: "ControlState \<Rightarrow> Vehicle \<Rightarrow> Vehicle" where
  "apply_acceleration controlState v =
     (if forward controlState
      then v\<lparr>velocity := velocity v + acceleration v * 0.016\<rparr> else v)"

definition apply_braking_or_reverse :: "ControlState \<Rightarrow> Vehicle \<Rightarrow> Vehicle" where
  "apply_braking_or_reverse controlState v =
     (if backward controlState
      then (if velocity v > 0
            then v\<lparr>velocity := velocity v - brakeForce v * 0.016\<rparr>
            else v\<lparr>velocity := velocity v - acceleration v * 0.016\<rparr>)
      else v)"

definition apply_steering :: "ControlState \<Rightarrow> Vehicle \<Rightarrow> Vehicle" where
  "apply_steering controlState v =
     (let v1 = (if left controlState
                then v\<lparr>direction := direction v + turnSpeed v\<rparr> else v)
      in if right controlState
         then v1\<lparr>direction := direction v1 - turnSpeed v1\<rparr> else v1)"

definition apply_handbrake :: "ControlState \<Rightarrow> Vehicle \<Rightarrow> Vehicle" where
  "apply_handbrake controlState v =
     (if handbrake controlState then v\<lparr>velocity := velocity v * 0.9\<rparr> else v)"

definition apply_regular_brake :: "ControlState \<Rightarrow> Vehicle \<Rightarrow> Vehicle" where
  "apply_regular_brake controlState v =
     (if brake controlState
      then (if velocity v > 0
            then v\<lparr>velocity := velocity v - brakeForce v * 0.016\<rparr>
            else if velocity v < 0
            then v\<lparr>velocity := velocity v + brakeForce v * 0.016\<rparr>
            else v)
      else v)"

definition clamp_velocity :: "Vehicle \<Rightarrow> Vehicle" where
  "clamp_velocity v = v\<lparr>velocity := max (min (velocity v) (maxSpeed v)) (- maxSpeed v / 2)\<rparr>"

definition apply_natural_deceleration :: "ControlState \<Rightarrow> Vehicle \<Rightarrow> Vehicle" where
  "apply_natural_deceleration controlState v =
     (if \<not> forward controlState \<and> \<not> backward controlState
      then (if \<bar>velocity v\<bar> < 0.1
            then v\<lparr>velocity := 0\<rparr>
            else v\<lparr>velocity := velocity v * 0.98\<rparr>)
      else v)"


section \<open>Human\<close>

text \<open>
  \<open>Math.atan2 y x\<close>, without the distinction between the two zeros of floating point.
\<close>

definition Math_atan2 :: "real \<Rightarrow> real \<Rightarrow> real" where
  "Math_atan2 b a =
     (if a > 0 then arctan (b / a)
      else if a < 0 \<and> b \<ge> 0 then arctan (b / a) + pi
      else if a < 0 \<and> b < 0 then arctan (b / a) - pi
      else if b > 0 then pi / 2
      else if b < 0 then - pi / 2
      else 0)"

text \<open>
  The fields of the class; \<open>h_mesh\<close> and \<open>h_body\<close> are its mesh and its body, whose
  poses are in the object store.
\<close>

record Human =
  h_mesh :: nat
  h_body :: nat
  walkSpeed :: real
  direction :: real
  isWalking :: bool
  panicMode :: bool
  targetPosition :: "Vector3 option"
  nextDirectionChange :: int
  directionChangeInterval :: int

text \<open>
  \<open>chooseNewDirection\<close>; \<open>r1\<close> and \<open>r2\<close> are its two draws of \<open>Math.random()\<close>, \<open>now\<close>
  the value of \<open>Date.now()\<close>.
\<close>

definition Human_chooseNewDirection ::
  "real \<Rightarrow> real \<Rightarrow> int \<Rightarrow> Human \<Rightarrow> Objects \<Rightarrow> Human \<times> Objects" where
  "Human_chooseNewDirection r1 r2 now h st =
     (let d = r1 * pi * 2;
          distance = 5 + r2 * 10;
          p = mesh_position st (h_mesh h);
          h1 = h\<lparr>Human.direction := d,
                 targetPosition := Some (Vector3 (vx p + sin d * distance) 0 (vz p + cos d * distance))\<rparr>;
          st1 = st\<lparr>mesh_rotation_y := (mesh_rotation_y st)(h_mesh h := d)\<rparr>
      in (h1\<lparr>nextDirectionChange := now + directionChangeInterval h1\<rparr>, st1))"

text \<open>
  The constructor, on the fresh mesh \<open>m\<close> and the fresh body \<open>b\<close>: the mesh is put at
  \<open>position\<close>, the body half its height (1.8) above it, and \<open>startWalking\<close> chooses
  the first direction. Adding the body to the physics world is \<open>addBody\<close>.
\<close>

definition new_Human ::
  "nat \<Rightarrow> nat \<Rightarrow> Vector3 \<Rightarrow> real \<Rightarrow> real \<Rightarrow> int \<Rightarrow> Objects \<Rightarrow> Human \<times> Objects" where
  "new_Human m b position r1 r2 now st =
     (let st1 = st\<lparr>mesh_position := (mesh_position st)(m := position)\<rparr>;
          height = 1.8;
          st2 = st1\<lparr>body_position := (body_position st1)
                       (b := Vector3 (vx position) (vy position + height / 2) (vz position))\<rparr>
      in Human_chooseNewDirection r1 r2 now
           \<lparr>h_mesh = m, h_body = b, walkSpeed = 1.5, direction = 0, isWalking = True,
            panicMode = False, targetPosition = None, nextDirectionChange = 0,
            directionChangeInterval = 3000\<rparr> st2)"

definition Human_panic :: "Vector3 \<Rightarrow> int \<Rightarrow> Human \<Rightarrow> Objects \<Rightarrow> Human \<times> Objects" where
  "Human_panic threatPosition now h st =
     (if panicMode h then (h, st)
      else
        let h1 = h\<lparr>panicMode := True, walkSpeed := 5\<rparr>;
            p = mesh_position st (h_mesh h1);
            awayVector = normalize (vsub p threatPosition);
            d = Math_atan2 (vx awayVector) (vz awayVector);
            h2 = h1\<lparr>Human.direction := d\<rparr>;
            st1 = st\<lparr>mesh_rotation_y := (mesh_rotation_y st)(h_mesh h2 := d)\<rparr>;
            distance = 20;
            h3 = h2\<lparr>targetPosition :=
                      Some (Vector3 (vx p + vx awayVector * distance) 0 (vz p + vz awayVector * distance))\<rparr>;
            h4 = h3\<lparr>directionChangeInterval := 5000\<rparr>
        in (h4\<lparr>nextDirectionChange := now + directionChangeInterval h4\<rparr>, st1))"

text \<open>
  \<open>Human.update\<close>; \<open>rs\<close> holds the draws of the two possible calls of
  \<open>chooseNewDirection\<close>, and every \<open>Date.now()\<close> of the call reads \<open>now\<close>. The swing of
  the arms and legs, which turns parts of the mesh only, is left out.
\<close>

definition Human_update ::
  "real \<Rightarrow> int \<Rightarrow> real \<times> real \<times> real \<times> real \<Rightarrow> Human \<Rightarrow> Objects \<Rightarrow> Human \<times> Objects" where
  "Human_update deltaTime now rs h st =
     (if \<not> isWalking h then (h, st)
      else
        case rs of (r1, r2, r3, r4) \<Rightarrow>
        let (h1, st1) = (if now > nextDirectionChange h
                         then Human_chooseNewDirection r1 r2 now h st else (h, st));
            distance = walkSpeed h1 * deltaTime;
            movement = Vector3 (sin (Human.direction h1) * distance) 0
                               (cos (Human.direction h1) * distance);
            m = h_mesh h1;
            b = h_body h1;
            st2 = st1\<lparr>mesh_position := (mesh_position st1)(m := vadd (mesh_position st1 m) movement)\<rparr>;
            st3 = st2\<lparr>body_position := (body_position st2)
                         (b := Vector3 (vx (mesh_position st2 m)) (vy (body_position st2 b))
                                       (vz (mesh_position st2 m)))\<rparr>;
            (h2, st4) = (case targetPosition h1 of
                           Some t \<Rightarrow>
                             if distanceTo (mesh_position st3 m) t < 1
                             then Human_chooseNewDirection r3 r4 now h1 st3 else (h1, st3)
                         | None \<Rightarrow> (h1, st3));
            walkCycle = sin (real_of_int now * 0.01) * 0.05;
            baseHeight = 0;
            st5 = st4\<lparr>mesh_position := (mesh_position st4)
                         (m := Vector3 (vx (mesh_position st4 m)) (baseHeight + walkCycle)
                                       (vz (mesh_position st4 m)))\<rparr>;
            bodyHeight = 1.8;
            st6 = st5\<lparr>body_position := (body_position st5)
                         (b := Vector3 (vx (body_position st5 b)) (bodyHeight / 2 + baseHeight + walkCycle)
                                       (vz (body_position st5 b)))\<rparr>;
            st7 = st6\<lparr>body_quaternion := (body_quaternion st6)(b := Quaternion 0 0 0 1)\<rparr>
        in (h2, st7))"

definition Human_getPosition :: "Human \<Rightarrow> Objects \<Rightarrow> Vector3" where
  "Human_getPosition h st = mesh_position st (h_mesh h)"

text \<open>\<open>Human.dispose\<close>; taking the mesh out of the scene is the renderer's matter.\<close>

definition Human_dispose :: "Human \<Rightarrow> PhysicsWorld \<Rightarrow> PhysicsWorld" where
  "Human_dispose h w = removeBody (ABody (h_body h)) w"

text \<open>The calls a human can receive after its construction that write its state.\<close>

datatype HumanCall =
  CallPanic Vector3 int
| CallUpdate real int "real \<times> real \<times> real \<times> real"

fun Human_call :: "HumanCall \<Rightarrow> Human \<times> Objects \<Rightarrow> Human \<times> Objects" where
  "Human_call (CallPanic threatPosition now) (h, st) = Human_panic threatPosition now h st"
| "Human_call (CallUpdate deltaTime now rs) (h, st) = Human_update deltaTime now rs h st"

fun Human_calls :: "HumanCall list \<Rightarrow> Human \<times> Objects \<Rightarrow> Human \<times> Objects" where
  "Human_calls [] hs = hs"
| "Human_calls (c # cs) hs = Human_calls cs (Human_call c hs)"

text \<open>The states the class keeps its humans in: one that panics walks at speed 5.\<close>

definition settled :: "Human \<Rightarrow> bool" where
  "settled h = (if panicMode h then walkSpeed h = 5 else True)"

section \<open>Animal\<close>

datatype AnimalType = DOG | CAT | COW | DEER | BIRD

record AnimalProperties =
  scale :: real
  speed :: real
  mass :: real
  flightCapable :: bool
  unpredictability :: real

fun animalProperties :: "AnimalType \<Rightarrow> AnimalProperties" where
  "animalProperties DOG =
     \<lparr>scale = 0.4, speed = 2.5, mass = 30, flightCapable = False, unpredictability = 0.7\<rparr>"
| "animalProperties CAT =
     \<lparr>scale = 0.3, speed = 3, mass = 10, flightCapable = False, unpredictability = 0.9\<rparr>"
| "animalProperties COW =
     \<lparr>scale = 1.2, speed = 1, mass = 600, flightCapable = False, unpredictability = 0.3\<rparr>"
| "animalProperties DEER =
     \<lparr>scale = 1, speed = 3.5, mass = 200, flightCapable = False, unpredictability = 0.5\<rparr>"
| "animalProperties BIRD =
     \<lparr>scale = 0.2, speed = 4, mass = 1, flightCapable = True, unpredictability = 0.8\<rparr>"

record Animal =
  a_mesh :: nat
  a_body :: nat
  animalType :: AnimalType
  properties :: AnimalProperties
  movementSpeed :: real
  direction :: real
  isMoving :: bool
  flightMode :: bool
  flightHeight :: real
  targetPosition :: "Vector3 option"
  nextDirectionChange :: real
  directionChangeInterval :: real

text \<open>
  \<open>Animal.chooseNewDirection\<close>; \<open>r3\<close> is the draw of the flight height, made in flight
  mode only.
\<close>

definition Animal_chooseNewDirection ::
  "real \<times> real \<times> real \<times> real \<Rightarrow> int \<Rightarrow> Animal \<Rightarrow> Objects \<Rightarrow> Animal \<times> Objects" where
  "Animal_chooseNewDirection rs now a st =
     (case rs of (r1, r2, r3, r4) \<Rightarrow>
      let d = r1 * pi * 2;
          distanceFactor = 1 - unpredictability (properties a);
          distance = 5 + r2 * 10 * distanceFactor;
          a1 = (if flightMode a then a\<lparr>flightHeight := 3 + r3 * 7\<rparr> else a);
          p = mesh_position st (a_mesh a1);
          a2 = a1\<lparr>Animal.direction := d,
                  Animal.targetPosition :=
                    Some (Vector3 (vx p + sin d * distance)
                                  (if flightMode a1 then flightHeight a1 else 0)
                                  (vz p + cos d * distance))\<rparr>;
          st1 = st\<lparr>mesh_rotation_y := (mesh_rotation_y st)(a_mesh a2 := d)\<rparr>;
          baseInterval = 2000;
          randomFactor = 1000 + r4 * 3000;
          a3 = a2\<lparr>Animal.directionChangeInterval :=
                    baseInterval + randomFactor * (1 - unpredictability (properties a2))\<rparr>
      in (a3\<lparr>Animal.nextDirectionChange := real_of_int now + Animal.directionChangeInterval a3\<rparr>, st1))"

definition Animal_flee :: "Vector3 \<Rightarrow> int \<Rightarrow> Animal \<Rightarrow> Objects \<Rightarrow> Animal \<times> Objects" where
  "Animal_flee threatPosition now a st =
     (let a1 = (if animalType a = BIRD \<and> \<not> flightMode a
                then a\<lparr>flightMode := True, flightHeight := 10\<rparr> else a);
          p = mesh_position st (a_mesh a1);
          awayVector = normalize (vsub p threatPosition);
          d = Math_atan2 (vx awayVector) (vz awayVector);
          st1 = st\<lparr>mesh_rotation_y := (mesh_rotation_y st)(a_mesh a1 := d)\<rparr>;
          distance = 30;
          a2 = a1\<lparr>Animal.direction := d,
                  Animal.targetPosition :=
                    Some (Vector3 (vx p + vx awayVector * distance)
                                  (if flightMode a1 then flightHeight a1 else 0)
                                  (vz p + vz awayVector * distance)),
                  movementSpeed := speed (properties a1) * 1.5\<rparr>
      in (a2\<lparr>Animal.nextDirectionChange := real_of_int now + 5000\<rparr>, st1))"

text \<open>
  \<open>Animal.update\<close>, in three parts. First the change of direction, when its time has
  come: \<open>rs\<close> holds the draws of \<open>chooseNewDirection\<close>, \<open>r5\<close> decides the sudden
  change of direction and \<open>r6\<close> is its size.
\<close>

definition Animal_turn ::
  "int \<Rightarrow> (real \<times> real \<times> real \<times> real) \<times> real \<times> real \<Rightarrow> Animal \<Rightarrow> Objects \<Rightarrow> Animal \<times> Objects" where
  "Animal_turn now rnd a st =
     (case rnd of (rs, r5, r6) \<Rightarrow>
        if real_of_int now > Animal.nextDirectionChange a
        then (let (a', st') = Animal_chooseNewDirection rs now a st
              in if r5 < unpredictability (properties a')
                 then (let d = Animal.direction a' + (r6 - 0.5) * pi
                       in (a'\<lparr>Animal.direction := d\<rparr>,
                           st'\<lparr>mesh_rotation_y := (mesh_rotation_y st')(a_mesh a' := d)\<rparr>))
                 else (a', st'))
        else (a, st))"

text \<open>Then the new position of the mesh, from its position \<open>p\<close>.\<close>

definition Animal_step :: "real \<Rightarrow> int \<Rightarrow> Animal \<Rightarrow> Vector3 \<Rightarrow> Vector3" where
  "Animal_step deltaTime now a1 p =
     (let distance = movementSpeed a1 * deltaTime;
          movement = Vector3 (sin (Animal.direction a1) * distance) 0
                             (cos (Animal.direction a1) * distance)
      in if animalType a1 = BIRD \<and> flightMode a1
         then (let q = vadd p movement
               in Vector3 (vx q) (vy q + (flightHeight a1 - vy q) * 0.02) (vz q))
         else (let walkCycle = sin (real_of_int now * 0.005) * 0.05
               in Vector3 (vx p + vx movement)
                          (if animalType a1 \<noteq> COW then max 0 walkCycle else 0)
                          (vz p + vz movement)))"

text \<open>
  Then the body follows the mesh. \<open>setFromEuler(0, d, 0)\<close> of cannon-es is the rotation
  by \<open>d\<close> about the vertical axis.
\<close>

definition Animal_update ::
  "real \<Rightarrow> int \<Rightarrow> (real \<times> real \<times> real \<times> real) \<times> real \<times> real \<Rightarrow> Animal \<Rightarrow> Objects \<Rightarrow> Animal \<times> Objects" where
  "Animal_update deltaTime now rnd a st =
     (if \<not> isMoving a then (a, st)
      else
        let (a1, st1) = Animal_turn now rnd a st;
            m = a_mesh a1;
            b = a_body a1;
            p' = Animal_step deltaTime now a1 (mesh_position st1 m);
            st2 = st1\<lparr>mesh_position := (mesh_position st1)(m := p')\<rparr>;
            st3 = (if animalType a1 = COW
                   then st2\<lparr>body_position := (body_position st2)(b := Vector3 (vx p') 0.6 (vz p')),
                            body_velocity := (body_velocity st2)(b := Vector3 0 0 0),
                            body_force := (body_force st2)(b := Vector3 0 (- 500) 0),
                            body_angularVelocity := (body_angularVelocity st2)(b := Vector3 0 0 0)\<rparr>
                   else if flightMode a1
                   then st2\<lparr>body_position := (body_position st2)(b := p')\<rparr>
                   else st2\<lparr>body_position := (body_position st2)(b := p'),
                            body_velocity := (body_velocity st2)
                              (b := Vector3 (vx (body_velocity st2 b)) 0 (vz (body_velocity st2 b)))\<rparr>);
            st4 = st3\<lparr>body_quaternion := (body_quaternion st3)
                         (b := Quaternion 0 (sin (Animal.direction a1 / 2)) 0
                                          (cos (Animal.direction a1 / 2)))\<rparr>
        in (a1, st4))"

definition Animal_getPosition :: "Animal \<Rightarrow> Objects \<Rightarrow> Vector3" where
  "Animal_getPosition a st = mesh_position st (a_mesh a)"

text \<open>
  \<open>Animal.dispose\<close>; leaving the scene and freeing geometries and materials are the
  renderer's matter.
\<close>

definition Animal_dispose :: "Animal \<Rightarrow> PhysicsWorld \<Rightarrow> PhysicsWorld" where
  "Animal_dispose a w = removeBody (ABody (a_body a)) w"

section \<open>NPCManager and the game\<close>

text \<open>
  The fields of \<open>NPCManager\<close>; \<open>playerVehicle\<close> is the reference to the player's
  vehicle, given by the mesh that \<open>Vehicle.getPosition\<close> reads.
\<close>

record NPCManager =
  humans :: "Human list"
  animals :: "Animal list"
  humanSpawnInterval :: int
  lastHumanSpawnTime :: int
  animalSpawnInterval :: int
  lastAnimalSpawnTime :: int
  panicRadius :: real
  playerVehicle :: "nat option"

definition new_NPCManager :: NPCManager where
  "new_NPCManager =
     \<lparr>humans = [], animals = [], humanSpawnInterval = 1500, lastHumanSpawnTime = 0,
      animalSpawnInterval = 2000, lastAnimalSpawnTime = 0, panicRadius = 15,
      playerVehicle = None\<rparr>"

text \<open>The objects of the game that the classes above share.\<close>

record Game =
  objects :: Objects
  physicsWorld :: PhysicsWorld
  collisionManager :: CollisionManager
  npcManager :: NPCManager

text \<open>
  A call of \<open>physicsWorld.removeBody\<close> in the game: the method reads and writes the
  fields of \<open>PhysicsWorld\<close> only, and that class holds no reference to the collision
  manager.
\<close>

definition Game_removeBody :: "BodyOrMesh \<Rightarrow> Game \<Rightarrow> Game" where
  "Game_removeBody x g = g\<lparr>physicsWorld := removeBody x (physicsWorld g)\<rparr>"

text \<open>
  \<open>PhysicsWorld.update\<close>. The step of cannon-es, which moves the bodies and reports the
  contacts to the callbacks, and the redrawing of the debug meshes are parameters.
\<close>

definition PhysicsWorld_update ::
  "(real \<Rightarrow> number \<Rightarrow> nat \<Rightarrow> Game \<Rightarrow> Game) \<Rightarrow> (Game \<Rightarrow> Game) \<Rightarrow> number \<Rightarrow> Game \<Rightarrow> Game" where
  "PhysicsWorld_update world_step updateDebugMeshes deltaTime g =
     (if gt_zero deltaTime
      then
        let g1 = world_step (1 / 60) deltaTime 3 g;
            g2 = g1\<lparr>objects := foldl sync_mesh (objects g1) (bodyMeshMap (physicsWorld g1))\<rparr>
        in if debugMode (physicsWorld g2) \<and> debugScene (physicsWorld g2) \<noteq> None
           then updateDebugMeshes g2 else g2
      else g)"

definition removeHuman :: "nat \<Rightarrow> Game \<Rightarrow> Game" where
  "removeHuman index g =
     (let hs = humans (npcManager g);
          human = hs ! index
      in g\<lparr>physicsWorld := Human_dispose human (physicsWorld g),
           npcManager := (npcManager g)\<lparr>humans := take index hs @ drop (Suc index) hs\<rparr>\<rparr>)"

definition removeAnimal :: "nat \<Rightarrow> Game \<Rightarrow> Game" where
  "removeAnimal index g =
     (let as = animals (npcManager g);
          animal = as ! index
      in g\<lparr>physicsWorld := Animal_dispose animal (physicsWorld g),
           npcManager := (npcManager g)\<lparr>animals := take index as @ drop (Suc index) as\<rparr>\<rparr>)"

text \<open>
  The loop of \<open>NPCManager.update\<close> over the humans, from the last index down:
  \<open>humans_loop rnd now deltaTime n\<close> runs the iterations \<open>i = n - 1, \<dots>, 0\<close>; \<open>rnd i\<close>
  holds the random draws of the update of the human at index \<open>i\<close>.
\<close>

fun humans_loop ::
  "(nat \<Rightarrow> real \<times> real \<times> real \<times> real) \<Rightarrow> int \<Rightarrow> real \<Rightarrow> nat \<Rightarrow> Game \<Rightarrow> Game" where
  "humans_loop rnd now deltaTime 0 g = g"
| "humans_loop rnd now deltaTime (Suc i) g =
     (let human = humans (npcManager g) ! i;
          (human1, st1) = Human_update deltaTime now (rnd i) human (objects g);
          g1 = g\<lparr>objects := st1,
                 npcManager := (npcManager g)\<lparr>humans := (humans (npcManager g))[i := human1]\<rparr>\<rparr>;
          position = Human_getPosition human1 (objects g1)
      in if vlength position > 150
         then humans_loop rnd now deltaTime i (removeHuman i g1)
         else
           case playerVehicle (npcManager g1) of
             Some pv \<Rightarrow>
               let vehiclePosition = mesh_position (objects g1) pv;
                   distanceToVehicle = distanceTo position vehiclePosition
               in if distanceToVehicle < panicRadius (npcManager g1)
                  then (let (human2, st2) = Human_panic vehiclePosition now human1 (objects g1)
                        in humans_loop rnd now deltaTime i
                             (g1\<lparr>objects := st2,
                                 npcManager := (npcManager g1)
                                   \<lparr>humans := (humans (npcManager g1))[i := human2]\<rparr>\<rparr>))
                  else humans_loop rnd now deltaTime i g1
           | None \<Rightarrow> humans_loop rnd now deltaTime i g1)"

fun animals_loop ::
  "(nat \<Rightarrow> (real \<times> real \<times> real \<times> real) \<times> real \<times> real) \<Rightarrow> int \<Rightarrow> real \<Rightarrow> nat \<Rightarrow> Game \<Rightarrow> Game" where
  "animals_loop rnd now deltaTime 0 g = g"
| "animals_loop rnd now deltaTime (Suc i) g =
     (let animal = animals (npcManager g) ! i;
          (animal1, st1) = Animal_update deltaTime now (rnd i) animal (objects g);
          g1 = g\<lparr>objects := st1,
                 npcManager := (npcManager g)\<lparr>animals := (animals (npcManager g))[i := animal1]\<rparr>\<rparr>;
          position = Animal_getPosition animal1 (objects g1)
      in if vlength position > 150
         then animals_loop rnd now deltaTime i (removeAnimal i g1)
         else
           case playerVehicle (npcManager g1) of
             Some pv \<Rightarrow>
               let vehiclePosition = mesh_position (objects g1) pv;
                   distanceToVehicle = distanceTo position vehiclePosition
               in if distanceToVehicle < panicRadius (npcManager g1)
                  then (let (animal2, st2) = Animal_flee vehiclePosition now animal1 (objects g1)
                        in animals_loop rnd now deltaTime i
                             (g1\<lparr>objects := st2,
                                 npcManager := (npcManager g1)
                                   \<lparr>animals := (animals (npcManager g1))[i := animal2]\<rparr>\<rparr>))
                  else animals_loop rnd now deltaTime i g1
           | None \<Rightarrow> animals_loop rnd now deltaTime i g1)"

text \<open>
  \<open>NPCManager.update\<close>, first its two spawn attempts. The attempts themselves, which
  build new agents from random draws and add them to the pools, are parameters.
\<close>

definition spawn_phase :: "(Game \<Rightarrow> Game) \<Rightarrow> (Game \<Rightarrow> Game) \<Rightarrow> int \<Rightarrow> Game \<Rightarrow> Game" where
  "spawn_phase trySpawnHuman trySpawnAnimal now g =
     (let g1 = (if now - lastHumanSpawnTime (npcManager g) > humanSpawnInterval (npcManager g)
                then (let g' = trySpawnHuman g
                      in g'\<lparr>npcManager := (npcManager g')\<lparr>lastHumanSpawnTime := now\<rparr>\<rparr>)
                else g)
      in if now - lastAnimalSpawnTime (npcManager g1) > animalSpawnInterval (npcManager g1)
         then (let g' = trySpawnAnimal g1
               in g'\<lparr>npcManager := (npcManager g')\<lparr>lastAnimalSpawnTime := now\<rparr>\<rparr>)
         else g1)"

text \<open>Then the two loops over the pools.\<close>

definition NPCManager_update ::
  "(Game \<Rightarrow> Game) \<Rightarrow> (Game \<Rightarrow> Game) \<Rightarrow> (nat \<Rightarrow> real \<times> real \<times> real \<times> real) \<Rightarrow>
   (nat \<Rightarrow> (real \<times> real \<times> real \<times> real) \<times> real \<times> real) \<Rightarrow> int \<Rightarrow> real \<Rightarrow> Game \<Rightarrow> Game" where
  "NPCManager_update trySpawnHuman trySpawnAnimal rndH rndA now deltaTime g =
     (let g2 = spawn_phase trySpawnHuman trySpawnAnimal now g;
          g3 = humans_loop rndH now deltaTime (length (humans (npcManager g2))) g2
      in animals_loop rndA now deltaTime (length (animals (npcManager g3))) g3)"

text \<open>
  The position an agent has when its own update of the tick has run on the objects
  \<open>st\<close>, and the test the loops make on it: the agent stays when the length of that
  position is not above 150.
\<close>

definition Human_position_after ::
  "real \<Rightarrow> int \<Rightarrow> real \<times> real \<times> real \<times> real \<Rightarrow> Human \<Rightarrow> Objects \<Rightarrow> Vector3" where
  "Human_position_after deltaTime now rs h st =
     (case Human_update deltaTime now rs h st of (h1, st1) \<Rightarrow> Human_getPosition h1 st1)"

definition human_stays ::
  "(nat \<Rightarrow> real \<times> real \<times> real \<times> real) \<Rightarrow> int \<Rightarrow> real \<Rightarrow> Objects \<Rightarrow> nat \<times> Human \<Rightarrow> bool" where
  "human_stays rnd now deltaTime st ih =
     (case ih of (i, h) \<Rightarrow> \<not> vlength (Human_position_after deltaTime now (rnd i) h st) > 150)"

definition Animal_position_after ::
  "real \<Rightarrow> int \<Rightarrow> (real \<times> real \<times> real \<times> real) \<times> real \<times> real \<Rightarrow> Animal \<Rightarrow> Objects \<Rightarrow> Vector3" where
  "Animal_position_after deltaTime now rnd a st =
     (case Animal_update deltaTime now rnd a st of (a1, st1) \<Rightarrow> Animal_getPosition a1 st1)"

definition animal_stays ::
  "(nat \<Rightarrow> (real \<times> real \<times> real \<times> real) \<times> real \<times> real) \<Rightarrow> int \<Rightarrow> real \<Rightarrow> Objects \<Rightarrow> nat \<times> Animal \<Rightarrow> bool" where
  "animal_stays rnd now deltaTime st ia =
     (case ia of (i, a) \<Rightarrow> \<not> vlength (Animal_position_after deltaTime now (rnd i) a st) > 150)"

section \<open>Concrete inputs\<close>

text \<open>
  A car, three pedestrians and a dog, the contact of two bodies at a given impact
  velocity, a consumer callback that returns and one that throws, and a manager on which
  the car is the player's vehicle, the others are registered with their types and the
  callback that returns is registered.
\<close>

definition car :: Body where
  "car = \<lparr>b_id = 1, b_position = Vector3 0 1 0, b_velocity = Vector3 0 0 10\<rparr>"

definition pedestrian :: Body where
  "pedestrian = \<lparr>b_id = 2, b_position = Vector3 0 1 3, b_velocity = Vector3 0 0 0\<rparr>"

definition pedestrian2 :: Body where
  "pedestrian2 = \<lparr>b_id = 3, b_position = Vector3 4 1 3, b_velocity = Vector3 0 0 0\<rparr>"

definition pedestrian3 :: Body where
  "pedestrian3 = \<lparr>b_id = 4, b_position = Vector3 8 1 3, b_velocity = Vector3 0 0 0\<rparr>"

definition dog :: Body where
  "dog = \<lparr>b_id = 5, b_position = Vector3 2 1 3, b_velocity = Vector3 0 0 0\<rparr>"

definition hit :: "Body \<Rightarrow> Body \<Rightarrow> real \<Rightarrow> RawEvent" where
  "hit a b v =
     \<lparr>raw_bodyA = a, raw_bodyB = b,
      raw_contact = Some \<lparr>impactVelocityAlongNormal = v, bi_position = b_position a,
                          ri = Vector3 0 0 1\<rparr>\<rparr>"

definition no_mesh :: "Body \<Rightarrow> nat option" where
  "no_mesh b = None"

definition returns :: "CollisionEvent \<Rightarrow> bool" where
  "returns e = False"

definition throws :: "CollisionEvent \<Rightarrow> bool" where
  "throws e = True"

definition listener :: CollisionCallback where
  "listener = \<lparr>cb_name = 0, cb_throws = returns\<rparr>"

definition ready_manager :: CollisionManager where
  "ready_manager =
     registerCollisionCallback listener
       (registerObject dog ANIMAL_NPC
         (registerObject pedestrian3 HUMAN_NPC
           (registerObject pedestrian2 HUMAN_NPC
             (registerObject pedestrian HUMAN_NPC
               (setVehicle car new_CollisionManager)))))"

text \<open>The outcome of a collision with a human at a given impact velocity.\<close>

definition human_outcome :: "Body \<Rightarrow> Body \<Rightarrow> real \<Rightarrow> CollisionEvent" where
  "human_outcome a b v =
     \<lparr>bodyA = a, bodyB = b, contact = None, target = None, targetType = HUMAN_NPC,
      impactVelocity = v, collisionPoint = Vector3 0 1 1\<rparr>"

definition animal_outcome :: "Body \<Rightarrow> Body \<Rightarrow> real \<Rightarrow> CollisionEvent" where
  "animal_outcome a b v =
     \<lparr>bodyA = a, bodyB = b, contact = None, target = None, targetType = ANIMAL_NPC,
      impactVelocity = v, collisionPoint = Vector3 0 1 1\<rparr>"

definition thrower :: CollisionCallback where
  "thrower = \<lparr>cb_name = 1, cb_throws = throws\<rparr>"

definition listener2 :: CollisionCallback where
  "listener2 = \<lparr>cb_name = 2, cb_throws = returns\<rparr>"

text \<open>
  The manager after four hits of humans, each with the car as \<open>bodyB\<close> and each
  followed by an update that empties the hit set.
\<close>

definition combo_manager :: CollisionManager where
  "combo_manager =
     run no_mesh
       [(100, Contact (hit pedestrian car 5)), (1005, Tick),
        (1100, Contact (hit pedestrian2 car 5)), (2010, Tick),
        (2100, Contact (hit pedestrian3 car 5)), (3005, Tick),
        (3100, Contact (hit pedestrian car 5)), (4010, Tick)]
       ready_manager"

text \<open>The manager with a callback that throws registered before one that returns.\<close>

definition fragile_manager :: CollisionManager where
  "fragile_manager =
     registerCollisionCallback listener2
       (registerCollisionCallback thrower
         (registerObject pedestrian HUMAN_NPC (setVehicle car new_CollisionManager)))"





text \<open>
  A game at rest: the car and a pedestrian in the physics world with their meshes, every
  object at the origin. \<open>falling_step\<close> stands for a step of the physics engine: it
  lowers the car by the length of the step; \<open>no_debug\<close> redraws nothing.
\<close>

definition origin :: "nat \<Rightarrow> Vector3" where
  "origin i = Vector3 0 0 0"

definition upright :: "nat \<Rightarrow> Quaternion" where
  "upright i = Quaternion 0 0 0 1"

definition unturned :: "nat \<Rightarrow> real" where
  "unturned i = 0"

definition resting_objects :: Objects where
  "resting_objects =
     \<lparr>body_position = origin, body_quaternion = upright, body_velocity = origin,
      body_force = origin, body_angularVelocity = origin, mesh_position = origin,
      mesh_quaternion = upright, mesh_rotation_y = unturned\<rparr>"

definition resting_game :: Game where
  "resting_game =
     \<lparr>objects = resting_objects,
      physicsWorld = addBody 2 (Some 12) (addBody 1 (Some 11) new_PhysicsWorld),
      collisionManager = ready_manager,
      npcManager = new_NPCManager\<rparr>"

definition falling_step :: "real \<Rightarrow> number \<Rightarrow> nat \<Rightarrow> Game \<Rightarrow> Game" where
  "falling_step h deltaTime n g =
     g\<lparr>objects := (objects g)\<lparr>body_position := (body_position (objects g))(1 := Vector3 0 (- h) 0)\<rparr>\<rparr>"

definition no_debug :: "Game \<Rightarrow> Game" where
  "no_debug g = g"

text \<open>The game at rest after the car has hit the pedestrian.\<close>

definition hit_game :: Game where
  "hit_game =
     resting_game\<lparr>collisionManager :=
       fst (handleCollision 100 (getMeshFromBody (physicsWorld resting_game))
              (hit pedestrian car 10) (collisionManager resting_game))\<rparr>"

text \<open>
  A game with the player's car 200 units east of the origin, a human 10 units from the
  car, a human at the origin and a dog half way. No spawn attempt adds an agent, and
  every random draw is 0.
\<close>

definition near_walker :: Human where
  "near_walker =
     \<lparr>h_mesh = 21, h_body = 31, walkSpeed = 1.5, direction = 0, isWalking = True,
      panicMode = False, targetPosition = Some (Vector3 210 0 10),
      nextDirectionChange = 3000, directionChangeInterval = 3000\<rparr>"

definition far_walker :: Human where
  "far_walker =
     \<lparr>h_mesh = 22, h_body = 32, walkSpeed = 1.5, direction = 0, isWalking = True,
      panicMode = False, targetPosition = Some (Vector3 0 0 10),
      nextDirectionChange = 3000, directionChangeInterval = 3000\<rparr>"

definition stray_dog :: Animal where
  "stray_dog =
     \<lparr>a_mesh = 23, a_body = 33, animalType = DOG, properties = animalProperties DOG,
      movementSpeed = 2.5, direction = 0, isMoving = True, flightMode = False,
      flightHeight = 0, targetPosition = Some (Vector3 100 0 10),
      nextDirectionChange = 3000, directionChangeInterval = 2000\<rparr>"

definition far_player_objects :: Objects where
  "far_player_objects =
     resting_objects
       \<lparr>body_position := origin(1 := Vector3 200 1 0, 31 := Vector3 210 0.9 0,
                                  32 := Vector3 0 0.9 0, 33 := Vector3 100 0 0),
        mesh_position := origin(11 := Vector3 200 1 0, 21 := Vector3 210 0 0,
                                  22 := Vector3 0 0 0, 23 := Vector3 100 0 0)\<rparr>"

definition far_player_game :: Game where
  "far_player_game =
     \<lparr>objects = far_player_objects,
      physicsWorld =
        addBody 33 (Some 23) (addBody 32 (Some 22) (addBody 31 (Some 21)
          (addBody 1 (Some 11) new_PhysicsWorld))),
      collisionManager = ready_manager,
      npcManager = new_NPCManager\<lparr>humans := [near_walker, far_walker],
                                  animals := [stray_dog], playerVehicle := Some 11\<rparr>\<rparr>"

definition no_spawn :: "Game \<Rightarrow> Game" where
  "no_spawn g = g"

definition calm :: "nat \<Rightarrow> real \<times> real \<times> real \<times> real" where
  "calm i = (0, 0, 0, 0)"

definition calm_animals :: "nat \<Rightarrow> (real \<times> real \<times> real \<times> real) \<times> real \<times> real" where
  "calm_animals i = ((0, 0, 0, 0), 0, 0)"

section \<open>Evaluation of the concrete inputs\<close>

lemma round_even_of_int:
  "round_even (of_int m) = of_int m"
  by (simp add: round_even_def)

lemma scale_up_of_int:
  "0 \<le> m \<Longrightarrow> m < 2 ^ 53 \<Longrightarrow> scale_up n (of_int m) = of_int m"
proof (induction n arbitrary: m)
  case 0
  then show ?case by (simp add: round_even_of_int)
next
  case (Suc n)
  show ?case
  proof (cases "real_of_int m < 2 ^ 52")
    case True
    then have "m < 2 ^ 52" by (metis of_int_less_numeral_power_cancel_iff)
    then have "m * 2 < 2 ^ 53" by simp
    from Suc.IH[of "m * 2"] Suc.prems(1) this have "scale_up n (of_int (m * 2)) = of_int (m * 2)"
      by simp
    then show ?thesis using True by simp
  next
    case False
    then show ?thesis by (simp add: round_even_of_int)
  qed
qed

text \<open>The integers below \<open>2 ^ 53\<close> in absolute value are doubles.\<close>

lemma double_of_int:
  "\<bar>m\<bar> < 2 ^ 53 \<Longrightarrow> double (of_int m) = of_int m"
  by (auto simp: double_def double_pos_def scale_up_of_int abs_if
        simp flip: of_int_minus split: if_splits)

lemma double_numeral:
  "numeral k < (2 :: int) ^ 53 \<Longrightarrow> double (numeral k) = numeral k"
  using double_of_int[of "numeral k"] by simp

lemma double_zero_one:
  "double 0 = 0" "double 1 = 1"
  using double_of_int[of 0] double_of_int[of 1] by simp_all

lemma scale_up_numeral:
  "scale_up (numeral k) x
     = (if x < 2 ^ 52 then scale_up (pred_numeral k) (x * 2) / 2 else round_even x)"
  by (simp add: numeral_eq_Suc)

lemma double_halves:
  "double (1 / 2) = 1 / 2" "double (3 / 2) = 3 / 2"
  by (simp_all add: double_def double_pos_def scale_up_numeral round_even_def)

lemmas example_defs =
  car_def pedestrian_def pedestrian2_def pedestrian3_def dog_def hit_def no_mesh_def
  returns_def throws_def listener_def listener2_def thrower_def ready_manager_def
  fragile_manager_def human_outcome_def animal_outcome_def
  registerCollisionCallback_def registerObject_def setVehicle_def new_CollisionManager_def

lemmas pipeline_defs =
  handleCollision_def impact_of_def vehicle_and_target_def collisionPoint_of_def
  processCollision_def processHumanCollision_def processAnimalCollision_def run_timer_def
  CollisionManager_update_def signed_modulo_int_def Let_def Math_round_def
  dadd_def dsub_def dmul_def ddiv_def dvec_def double_numeral double_zero_one double_halves

text \<open>
  Values at which the rounding of the doubles shows. At impact speed 2.875 the exact
  product \<open>100 * (2.875 / 5)\<close> is 57.5, which \<open>Math.round\<close> would take to 58; the product
  of the doubles lies below it and the gain is 57, and 86 with the counter going from 2
  to 3. At impact speed 1.425, which is not a double, the gain is 29.
\<close>

lemma gain_in_doubles:
  "score (processHumanCollision 100 (human_outcome pedestrian car 2.875) ready_manager) = 57"
  "score (processHumanCollision 100 (human_outcome pedestrian car 2.875)
            (ready_manager\<lparr>consecutiveHumanHits := 2\<rparr>)) = 86"
  "score (processHumanCollision 100 (human_outcome pedestrian car 1.425) ready_manager) = 29"
  "Math_round (100 * min 3 (2.875 / 5)) = 58"
proof -
  note eval = double_def double_pos_def scale_up_numeral round_even_def
  have a: "double 2.875 = 23 / 8"
    by (simp add: eval)
  have b: "ddiv (23 / 8) 5 = 2589569785738035 / 2 ^ 52"
    by (simp add: ddiv_def eval)
  have c: "dmul 100 (min 3 (2589569785738035 / 2 ^ 52)) = 8092405580431359 / 2 ^ 47"
    by (simp add: dmul_def eval)
  have d: "Math_round (8092405580431359 / 2 ^ 47) = 57"
    by (simp add: Math_round_def)
  have e: "min 3 (dadd 1 (dmul (dsub 3 2) 0.5)) = 3 / 2"
    by (simp add: dadd_def dmul_def dsub_def double_zero_one double_halves)
  have f: "Math_round (dmul (real_of_int 57) (3 / 2)) = 86"
    by (simp add: dmul_def Math_round_def eval)
  have g: "double 1.425 = 6417629469002957 / 2 ^ 52"
    by (simp add: eval)
  have h: "ddiv (6417629469002957 / 2 ^ 52) 5 = 2567051787601183 / 2 ^ 53"
    by (simp add: ddiv_def eval)
  have i: "dmul 100 (min 3 (2567051787601183 / 2 ^ 53)) = 8022036836253697 / 2 ^ 48"
    by (simp add: dmul_def eval)
  have j: "Math_round (8022036836253697 / 2 ^ 48) = 29"
    by (simp add: Math_round_def)
  have "score (processHumanCollision 100 (human_outcome pedestrian car 2.875) ready_manager)
          = Math_round (dmul 100 (min 3 (ddiv (double 2.875) 5)))"
    by (simp add: example_defs processHumanCollision_def Let_def)
  also have "\<dots> = 57"
    by (simp only: a b c d)
  finally show "score (processHumanCollision 100 (human_outcome pedestrian car 2.875) ready_manager) = 57" .
  have "score (processHumanCollision 100 (human_outcome pedestrian car 2.875)
                 (ready_manager\<lparr>consecutiveHumanHits := 2\<rparr>))
          = Math_round (dmul (real_of_int (Math_round (dmul 100 (min 3 (ddiv (double 2.875) 5)))))
                             (min 3 (dadd 1 (dmul (dsub 3 2) 0.5))))"
    by (simp add: example_defs processHumanCollision_def Let_def)
  also have "\<dots> = 86"
    by (simp only: a b c d e f)
  finally show "score (processHumanCollision 100 (human_outcome pedestrian car 2.875)
            (ready_manager\<lparr>consecutiveHumanHits := 2\<rparr>)) = 86" .
  have "score (processHumanCollision 100 (human_outcome pedestrian car 1.425) ready_manager)
          = Math_round (dmul 100 (min 3 (ddiv (double 1.425) 5)))"
    by (simp add: example_defs processHumanCollision_def Let_def)
  also have "\<dots> = 29"
    by (simp only: g h i j)
  finally show "score (processHumanCollision 100 (human_outcome pedestrian car 1.425) ready_manager) = 29" .
  show "Math_round (100 * min 3 (2.875 / 5)) = 58"
    by (simp add: Math_round_def)
qed

lemmas game_defs =
  resting_game_def resting_objects_def hit_game_def falling_step_def no_debug_def
  new_PhysicsWorld_def new_NPCManager_def addBody_def world_addBody_def world_removeBody_def
  getMeshFromBody_def Game_removeBody_def origin_def upright_def unturned_def

lemma combo_manager_state:
  "consecutiveHumanHits combo_manager = 4"
  "score combo_manager = 550"
  "lastHitTime combo_manager = 3100"
  "hitObjects combo_manager = {}"
  "comboTimeWindow combo_manager = 5000"
  "vehicle combo_manager = Some 1"
  "objectTypes combo_manager = objectTypes ready_manager"
  "collisionCallbacks combo_manager = [listener]"
  by (simp_all add: combo_manager_def pipeline_defs example_defs)

section \<open>Deduplication of contacts\<close>
























text \<open>
  A timer that is late keeps the window closed: the pedestrian hit at 100 and touched
  again at 1100, the timer of the first hit not having run yet, is not dispatched again;
  once the timer has run, it is.
\<close>

lemma late_timer_keeps_window_closed:
  "length (invoked (run no_mesh [(100, Contact (hit pedestrian car 10)),
                                 (1100, Contact (hit pedestrian car 10))] ready_manager)) = 1"
  "length (invoked (run no_mesh [(100, Contact (hit pedestrian car 10)), (1100, Timeout),
                                 (1100, Contact (hit pedestrian car 10))] ready_manager)) = 2"
  by (simp_all add: pipeline_defs example_defs)




section \<open>Scoring\<close>

text \<open>
  \<open>handleCollision\<close> puts the identifier of the target into the hit set before it calls
  \<open>processCollision\<close>, and \<open>processHumanCollision\<close> and \<open>processAnimalCollision\<close> return at
  once when the identifier of the event's \<open>bodyB\<close> is in the hit set. So whenever the
  vehicle is \<open>bodyA\<close> of a contact, the target being \<open>bodyB\<close>, neither the score nor the
  counter of hits moves, whatever the state, the event and the time.
\<close>

lemma vehicle_as_bodyA_never_scores:
  assumes "objectTypes s (b_id (raw_bodyA e)) = Some VEHICLE"
  shows "score (fst (handleCollision now gm e s)) = score s"
    and "consecutiveHumanHits (fst (handleCollision now gm e s)) = consecutiveHumanHits s"
  using assms
  by (simp_all add: handleCollision_def vehicle_and_target_def processCollision_def
      processHumanCollision_def processAnimalCollision_def Let_def split_beta
      split: CollisionObjectType.splits option.splits)

text \<open>
  \<open>processHumanCollision\<close> puts the identifier of \<open>bodyB\<close> into the hit set and sets no
  timer for it. So once the vehicle's identifier is in the hit set, no contact with the
  vehicle as \<open>bodyB\<close> moves the score or the counter either.
\<close>

lemma vehicle_in_hit_set_never_scores:
  assumes "b_id (raw_bodyB e) \<in> hitObjects s"
  shows "score (fst (handleCollision now gm e s)) = score s"
    and "consecutiveHumanHits (fst (handleCollision now gm e s)) = consecutiveHumanHits s"
  using assms
  by (simp_all add: handleCollision_def vehicle_and_target_def processCollision_def
      processHumanCollision_def processAnimalCollision_def Let_def split_beta
      split: CollisionObjectType.splits option.splits)

text \<open>
  Claim C2. The code breaks it. On the manager with a fresh score state (score 0,
  counter 0, empty hit set), the contact of the car with a pedestrian at impact speed 10,
  the pedestrian being \<open>bodyB\<close>, is dispatched as the outcome of a human at impact speed
  10, and the score and the counter stay at 0, where the claim has a gain of 200. The
  same contact with the pedestrian as \<open>bodyA\<close> gains the 200 and makes the counter 1.
\<close>

theorem human_as_bodyB_scores_nothing:
  "consecutiveHumanHits ready_manager = 0 \<and> score ready_manager = 0 \<and>
   hitObjects ready_manager = {} \<and>
   targetType (snd (hd (invoked (fst (handleCollision 100 no_mesh (hit car pedestrian 10) ready_manager)))))
     = HUMAN_NPC \<and>
   impactVelocity (snd (hd (invoked (fst (handleCollision 100 no_mesh (hit car pedestrian 10) ready_manager)))))
     = 10 \<and>
   score (fst (handleCollision 100 no_mesh (hit car pedestrian 10) ready_manager))
     - score ready_manager = 0 \<and>
   consecutiveHumanHits (fst (handleCollision 100 no_mesh (hit car pedestrian 10) ready_manager)) = 0 \<and>
   score (fst (handleCollision 100 no_mesh (hit pedestrian car 10) ready_manager))
     - score ready_manager = 200 \<and>
   consecutiveHumanHits (fst (handleCollision 100 no_mesh (hit pedestrian car 10) ready_manager)) = 1"
  by (simp add: pipeline_defs example_defs)

text \<open>
  Claim C3. The code breaks it. Three humans are hit at impact speed 5 within 300 ms,
  each a contact with the human as \<open>bodyA\<close> and the car as \<open>bodyB\<close>. The three outcomes
  are dispatched; the first gains 100 and leaves the car's identifier in the hit set, so
  the second and the third gain nothing and the counter stays at 1, where the claim has
  gains of 100, 100 and 150.
\<close>

theorem three_quick_hits_score_once:
  "length (invoked (run no_mesh [(100, Contact (hit pedestrian car 5)),
                                 (200, Contact (hit pedestrian2 car 5)),
                                 (300, Contact (hit pedestrian3 car 5))] ready_manager)) = 3 \<and>
   score (run no_mesh [(100, Contact (hit pedestrian car 5))] ready_manager)
     - score ready_manager = 100 \<and>
   score (run no_mesh [(100, Contact (hit pedestrian car 5)),
                       (200, Contact (hit pedestrian2 car 5))] ready_manager)
     - score (run no_mesh [(100, Contact (hit pedestrian car 5))] ready_manager) = 0 \<and>
   score (run no_mesh [(100, Contact (hit pedestrian car 5)),
                       (200, Contact (hit pedestrian2 car 5)),
                       (300, Contact (hit pedestrian3 car 5))] ready_manager)
     - score (run no_mesh [(100, Contact (hit pedestrian car 5)),
                           (200, Contact (hit pedestrian2 car 5))] ready_manager) = 0 \<and>
   consecutiveHumanHits (run no_mesh [(100, Contact (hit pedestrian car 5)),
                                      (200, Contact (hit pedestrian2 car 5)),
                                      (300, Contact (hit pedestrian3 car 5))] ready_manager) = 1"
  by (simp add: pipeline_defs example_defs)

text \<open>
  The gains of the claim appear when an \<open>update\<close> at a time whose remainder by 1000 is
  below 20 empties the hit set between the hits: 100, 100 and 150, then 200 for a fourth.
\<close>

lemma hits_apart_gain_combo:
  "score (run no_mesh [(100, Contact (hit pedestrian car 5)), (1005, Tick)] ready_manager) = 100"
  "score (run no_mesh [(100, Contact (hit pedestrian car 5)), (1005, Tick),
                       (1100, Contact (hit pedestrian2 car 5)), (2010, Tick)] ready_manager) = 200"
  "score (run no_mesh [(100, Contact (hit pedestrian car 5)), (1005, Tick),
                       (1100, Contact (hit pedestrian2 car 5)), (2010, Tick),
                       (2100, Contact (hit pedestrian3 car 5)), (3005, Tick)] ready_manager) = 350"
  "score combo_manager = 550"
  by (simp_all add: combo_manager_def pipeline_defs example_defs)

text \<open>
  Claim C4. The code breaks it. With the counter at 4, the contact of the car with the
  dog, the dog being \<open>bodyB\<close>, is dispatched as the outcome of an animal, and neither the
  score nor the counter changes, where the claim has the score 200 lower and the
  counter at 0. The same contact with the dog as \<open>bodyA\<close> takes the 200 and resets the
  counter.
\<close>

theorem animal_as_bodyB_costs_nothing:
  "consecutiveHumanHits combo_manager = 4 \<and> hitObjects combo_manager = {} \<and>
   targetType (snd (last (invoked (fst (handleCollision 4100 no_mesh (hit car dog 7) combo_manager)))))
     = ANIMAL_NPC \<and>
   score (fst (handleCollision 4100 no_mesh (hit car dog 7) combo_manager))
     - score combo_manager = 0 \<and>
   consecutiveHumanHits (fst (handleCollision 4100 no_mesh (hit car dog 7) combo_manager)) = 4 \<and>
   score (fst (handleCollision 4100 no_mesh (hit dog car 7) combo_manager))
     - score combo_manager = - 200 \<and>
   consecutiveHumanHits (fst (handleCollision 4100 no_mesh (hit dog car 7) combo_manager)) = 0"
  by (simp add: pipeline_defs combo_manager_state example_defs)

section \<open>Dispatch to the consumer callbacks\<close>

text \<open>
  Claim C5, as the code has it. The callbacks are called in the order of their
  registration. When none throws, every one of them is called. When one throws, those
  registered before it and the one that throws have been called, the exception leaves
  the loop, and those registered after it are not called.
\<close>

theorem dispatch_stops_at_first_throw:
  "((\<forall>c \<in> set cs. \<not> cb_throws c ev) \<longrightarrow>
      forEach_callbacks cs ev = (map (\<lambda>c. (cb_name c, ev)) cs, Returned)) \<and>
   ((\<forall>c \<in> set pre. \<not> cb_throws c ev) \<and> cb_throws c ev \<longrightarrow>
      forEach_callbacks (pre @ c # post) ev = (map (\<lambda>c. (cb_name c, ev)) (pre @ [c]), Thrown))"
proof
  show "(\<forall>c \<in> set cs. \<not> cb_throws c ev) \<longrightarrow>
      forEach_callbacks cs ev = (map (\<lambda>c. (cb_name c, ev)) cs, Returned)"
    by (induction cs) auto
  show "(\<forall>c \<in> set pre. \<not> cb_throws c ev) \<and> cb_throws c ev \<longrightarrow>
      forEach_callbacks (pre @ c # post) ev = (map (\<lambda>c. (cb_name c, ev)) (pre @ [c]), Thrown)"
    by (induction pre) auto
qed

theorem dispatch_stops_at_first_throw_witness:
  "\<not> cb_throws listener (human_outcome car pedestrian 10) \<and>
   \<not> cb_throws listener2 (human_outcome car pedestrian 10) \<and>
   cb_throws thrower (human_outcome car pedestrian 10) \<and>
   forEach_callbacks [listener, listener2] (human_outcome car pedestrian 10)
     = ([(0, human_outcome car pedestrian 10), (2, human_outcome car pedestrian 10)], Returned) \<and>
   forEach_callbacks ([listener] @ thrower # [listener2]) (human_outcome car pedestrian 10)
     = ([(0, human_outcome car pedestrian 10), (1, human_outcome car pedestrian 10)], Thrown)"
proof -
  let ?ev = "human_outcome car pedestrian 10"
  have a: "\<forall>c \<in> set [listener, listener2]. \<not> cb_throws c ?ev"
    by (simp add: listener_def listener2_def returns_def)
  have b: "(\<forall>c \<in> set [listener]. \<not> cb_throws c ?ev) \<and> cb_throws thrower ?ev"
    by (simp add: listener_def thrower_def returns_def throws_def)
  from dispatch_stops_at_first_throw [of "[listener, listener2]" ?ev "[listener]" thrower "[listener2]"]
       a b
  show ?thesis
    by (simp add: listener_def listener2_def thrower_def)
qed

text \<open>
  Claim C5 as stated fails: with a callback that throws registered before one that
  returns, a dispatched contact calls the first only, and \<open>handleCollision\<close> throws.
\<close>

theorem callback_after_throw_not_called:
  "map cb_name (collisionCallbacks fragile_manager) = [1, 2] \<and>
   map fst (invoked (fst (handleCollision 100 no_mesh (hit pedestrian car 10) fragile_manager))) = [1] \<and>
   snd (handleCollision 100 no_mesh (hit pedestrian car 10) fragile_manager) = Thrown"
  by (simp add: pipeline_defs example_defs)

section \<open>Vehicle control\<close>

lemma maxSpeed_steps [simp]:
  "maxSpeed (apply_acceleration cs v) = maxSpeed v"
  "maxSpeed (apply_braking_or_reverse cs v) = maxSpeed v"
  "maxSpeed (apply_steering cs v) = maxSpeed v"
  "maxSpeed (apply_handbrake cs v) = maxSpeed v"
  "maxSpeed (apply_regular_brake cs v) = maxSpeed v"
  "maxSpeed (clamp_velocity v) = maxSpeed v"
  by (simp_all add: apply_acceleration_def apply_braking_or_reverse_def apply_steering_def
      apply_handbrake_def apply_regular_brake_def clamp_velocity_def Let_def)

lemma velocity_steering [simp]: "velocity (apply_steering cs v) = velocity v"
  by (simp add: apply_steering_def Let_def)

lemma brakeForce_steps [simp]:
  "brakeForce (apply_steering cs v) = brakeForce v"
  "brakeForce (apply_handbrake cs v) = brakeForce v"
  by (simp_all add: apply_steering_def apply_handbrake_def Let_def)

lemma clamp_range:
  assumes "0 \<le> maxSpeed v"
  shows "- maxSpeed v / 2 \<le> velocity (clamp_velocity v)" "velocity (clamp_velocity v) \<le> maxSpeed v"
  using assms by (simp_all add: clamp_velocity_def)



lemma maxSpeed_decel [simp]: "maxSpeed (apply_natural_deceleration cs v) = maxSpeed v"
  by (simp add: apply_natural_deceleration_def)




section \<open>The physics world\<close>

text \<open>
  Claim C8. \<open>PhysicsWorld.update\<close> with a time delta that is NaN, negative infinity or
  a number not above 0 returns the game as it was: the engine is not stepped, no body or
  mesh moves or turns, and nothing else is written.
\<close>

theorem nonpositive_step_is_noop:
  assumes "deltaTime = NaN \<or> deltaTime = NegInfinity \<or> (\<exists>r. deltaTime = Finite r \<and> r \<le> 0)"
  shows "PhysicsWorld_update world_step updateDebugMeshes deltaTime g = g"
  using assms by (auto simp: PhysicsWorld_update_def)

theorem nonpositive_step_is_noop_witness:
  "PhysicsWorld_update falling_step no_debug NaN resting_game = resting_game \<and>
   PhysicsWorld_update falling_step no_debug (Finite 0) resting_game = resting_game \<and>
   PhysicsWorld_update falling_step no_debug (Finite (- 1 / 60)) resting_game = resting_game \<and>
   PhysicsWorld_update falling_step no_debug NegInfinity resting_game = resting_game"
proof -
  have a: "NaN = NaN \<or> NaN = NegInfinity \<or> (\<exists>r. NaN = Finite r \<and> r \<le> 0)"
    by simp
  have b: "Finite 0 = NaN \<or> Finite 0 = NegInfinity \<or> (\<exists>r. Finite 0 = Finite r \<and> r \<le> 0)"
    by simp
  have c: "Finite (- 1 / 60) = NaN \<or> Finite (- 1 / 60) = NegInfinity
           \<or> (\<exists>r. Finite (- 1 / 60) = Finite r \<and> r \<le> 0)"
    by simp
  have d: "NegInfinity = NaN \<or> NegInfinity = NegInfinity \<or> (\<exists>r. NegInfinity = Finite r \<and> r \<le> 0)"
    by simp
  from nonpositive_step_is_noop [OF a] nonpositive_step_is_noop [OF b]
       nonpositive_step_is_noop [OF c] nonpositive_step_is_noop [OF d]
  show ?thesis by simp
qed

text \<open>With a positive delta the same step moves the car and its mesh.\<close>

lemma positive_step_moves:
  "body_position (objects (PhysicsWorld_update falling_step no_debug (Finite (1 / 60)) resting_game)) 1
     = Vector3 0 (- 1 / 60) 0 \<and>
   mesh_position (objects (PhysicsWorld_update falling_step no_debug (Finite (1 / 60)) resting_game)) 11
     = Vector3 0 (- 1 / 60) 0 \<and>
   mesh_position (objects resting_game) 11 = Vector3 0 0 0"
  by (simp add: PhysicsWorld_update_def game_defs sync_mesh_def)

lemma map_of_delete_None: "map_of (AList.delete k al) k = None"
  by (simp add: map_of_eq_None_iff AList.delete_eq image_iff) 

text \<open>
  Claim C6, as the code has it. \<open>removeBody\<close> takes the body out of the physics world
  (the list of bodies of the world, given that the list has no duplicates, the map
  \<open>physicsBodies\<close> and the two maps between bodies and meshes) and leaves the
  collision manager as it was, hit set and classification map included; so do
  \<open>removeHuman\<close> and \<open>removeAnimal\<close> of the population manager, which dispose agents
  through it.
\<close>

theorem removeBody_purges_physics_world_only:
  "collisionManager (Game_removeBody x g) = collisionManager g \<and>
   collisionManager (removeHuman i g) = collisionManager g \<and>
   collisionManager (removeAnimal i g) = collisionManager g \<and>
   (x = ABody b \<longrightarrow>
      b \<notin> physicsBodies (physicsWorld (Game_removeBody x g)) \<and>
      (distinct (world_bodies (physicsWorld g)) \<longrightarrow>
         b \<notin> set (world_bodies (physicsWorld (Game_removeBody x g)))) \<and>
      (\<forall>m. map_of (bodyMeshMap (physicsWorld g)) b = Some m \<longrightarrow>
         map_of (bodyMeshMap (physicsWorld (Game_removeBody x g))) b = None \<and>
         meshBodyMap (physicsWorld (Game_removeBody x g)) m = None))"
  by (auto simp: Game_removeBody_def removeHuman_def removeAnimal_def Let_def world_removeBody_def
      map_of_delete_None split: option.splits)


theorem removeBody_purges_physics_world_only_witness:
  "collisionManager (Game_removeBody (ABody 2) hit_game) = collisionManager hit_game \<and>
   2 \<notin> physicsBodies (physicsWorld (Game_removeBody (ABody 2) hit_game)) \<and>
   distinct (world_bodies (physicsWorld hit_game)) \<and>
   2 \<in> set (world_bodies (physicsWorld hit_game)) \<and>
   2 \<notin> set (world_bodies (physicsWorld (Game_removeBody (ABody 2) hit_game))) \<and>
   map_of (bodyMeshMap (physicsWorld hit_game)) 2 = Some 12 \<and>
   map_of (bodyMeshMap (physicsWorld (Game_removeBody (ABody 2) hit_game))) 2 = None \<and>
   meshBodyMap (physicsWorld (Game_removeBody (ABody 2) hit_game)) 12 = None"
proof -
  have d: "distinct (world_bodies (physicsWorld hit_game))"
          "2 \<in> set (world_bodies (physicsWorld hit_game))"
    by (simp_all add: game_defs)
  have m: "map_of (bodyMeshMap (physicsWorld hit_game)) 2 = Some 12"
    by (simp add: game_defs)
  from removeBody_purges_physics_world_only [of "ABody 2" hit_game 0 2] d m
  show ?thesis by simp
qed

text \<open>
  Claim C6 as stated fails: the pedestrian, hit and then removed from the physics
  world, is still classified as a human and still in the hit set.
\<close>

theorem removed_body_stays_classified:
  "objectTypes (collisionManager (Game_removeBody (ABody 2) hit_game)) 2 = Some HUMAN_NPC \<and>
   2 \<in> hitObjects (collisionManager (Game_removeBody (ABody 2) hit_game)) \<and>
   2 \<notin> physicsBodies (physicsWorld (Game_removeBody (ABody 2) hit_game)) \<and>
   2 \<notin> set (world_bodies (physicsWorld (Game_removeBody (ABody 2) hit_game)))"
  by (simp add: game_defs pipeline_defs example_defs)

section \<open>Humans\<close>

lemma choose_keeps_panic:
  "panicMode (fst (Human_chooseNewDirection r1 r2 now h st)) = panicMode h"
  "walkSpeed (fst (Human_chooseNewDirection r1 r2 now h st)) = walkSpeed h"
  by (simp_all add: Human_chooseNewDirection_def Let_def)

lemma choose_keeps_panicD:
  assumes "Human_chooseNewDirection r1 r2 now h st = (h', st')"
  shows "panicMode h' = panicMode h \<and> walkSpeed h' = walkSpeed h"
  using assms by (auto simp: Human_chooseNewDirection_def Let_def)

lemma update_keeps_panic:
  "panicMode (fst (Human_update dt now rs h st)) = panicMode h \<and>
   walkSpeed (fst (Human_update dt now rs h st)) = walkSpeed h"
  by (auto simp: Human_update_def Let_def split: prod.splits option.splits if_splits
      dest!: choose_keeps_panicD)

lemma panic_sets:
  "panicMode (fst (Human_panic t now h st))"
  "\<not> panicMode h \<Longrightarrow> walkSpeed (fst (Human_panic t now h st)) = 5"
  "panicMode h \<Longrightarrow> Human_panic t now h st = (h, st)"
  by (simp_all add: Human_panic_def Let_def)

lemma call_settled: "settled (fst hs) \<Longrightarrow> settled (fst (Human_call c hs))"
  by (cases c; cases hs) (auto simp: settled_def update_keeps_panic Human_panic_def Let_def)

lemma calls_settled: "settled (fst hs) \<Longrightarrow> settled (fst (Human_calls cs hs))"
  by (induction cs arbitrary: hs) (auto simp: call_settled)

lemma call_panicking: "panicMode (fst hs) \<Longrightarrow> panicMode (fst (Human_call c hs))"
  by (cases c; cases hs) (auto simp: update_keeps_panic panic_sets)

lemma calls_panicking: "panicMode (fst hs) \<Longrightarrow> panicMode (fst (Human_calls cs hs))"
  by (induction cs arbitrary: hs) (auto simp: call_panicking)

lemma new_settled: "settled (fst (new_Human m b position r1 r2 now st))"
  by (simp add: new_Human_def settled_def choose_keeps_panic Let_def)

text \<open>
  Claim C10. Take a human from its constructor through any calls of \<open>update\<close> and
  \<open>panic\<close>, then through a call of \<open>panic\<close>, then through any further calls. It is in
  panic mode, its walking speed is 5 (not the 1.5 it was built with), and one more call
  of \<open>panic\<close> changes neither the human nor any object.
\<close>

theorem panic_is_permanent:
  "walkSpeed (fst (new_Human m b position r1 r2 born st)) = 1.5 \<and>
   (case Human_calls later
          (Human_call (CallPanic threatPosition now)
             (Human_calls earlier (new_Human m b position r1 r2 born st))) of
     (h, st') \<Rightarrow>
       panicMode h \<and> walkSpeed h = 5 \<and> Human_panic threatPosition' now' h st' = (h, st'))"
proof -
  let ?a = "Human_calls earlier (new_Human m b position r1 r2 born st)"
  let ?b = "Human_call (CallPanic threatPosition now) ?a"
  let ?c = "Human_calls later ?b"
  have "settled (fst ?a)" by (rule calls_settled [OF new_settled])
  then have "settled (fst ?b)" by (rule call_settled)
  then have s: "settled (fst ?c)" by (rule calls_settled)
  have "panicMode (fst ?b)" by (cases ?a) (simp add: panic_sets)
  then have p: "panicMode (fst ?c)" by (rule calls_panicking)
  from s p have "walkSpeed (fst ?c) = 5" by (simp add: settled_def)
  moreover have "walkSpeed (fst (new_Human m b position r1 r2 born st)) = 1.5"
    by (simp add: new_Human_def choose_keeps_panic Let_def)
  ultimately show ?thesis using p by (cases ?c) (simp add: panic_sets)
qed

section \<open>The population\<close>

lemma zip_upt_take_Suc:
  assumes "n < length hs"
  shows "zip [0..<Suc n] (take (Suc n) hs) = zip [0..<n] (take n hs) @ [(n, hs ! n)]"
  using assms by (simp add: take_Suc_conv_app_nth)

lemma Human_choose_ids:
  "h_mesh (fst (Human_chooseNewDirection r1 r2 now h st)) = h_mesh h"
  "h_body (fst (Human_chooseNewDirection r1 r2 now h st)) = h_body h"
  "mesh_position (snd (Human_chooseNewDirection r1 r2 now h st)) = mesh_position st"
  by (simp_all add: Human_chooseNewDirection_def Let_def)

lemma Human_choose_local:
  assumes "mesh_position st (h_mesh h) = mesh_position st' (h_mesh h)"
  shows "fst (Human_chooseNewDirection r1 r2 now h st) = fst (Human_chooseNewDirection r1 r2 now h st')"
  using assms by (simp add: Human_chooseNewDirection_def Let_def)

lemma Human_panic_ids:
  "h_mesh (fst (Human_panic t now h st)) = h_mesh h"
  "h_body (fst (Human_panic t now h st)) = h_body h"
  "mesh_position (snd (Human_panic t now h st)) = mesh_position st"
  by (simp_all add: Human_panic_def Let_def)

lemma Human_update_ids:
  "h_mesh (fst (Human_update dt now rs h st)) = h_mesh h"
  "h_body (fst (Human_update dt now rs h st)) = h_body h"
  by (simp_all add: Human_update_def Let_def split_beta Human_choose_ids split: option.splits)

lemma Human_update_other_mesh:
  assumes "m \<noteq> h_mesh h"
  shows "mesh_position (snd (Human_update dt now rs h st)) m = mesh_position st m"
  using assms
  by (simp add: Human_update_def Let_def split_beta Human_choose_ids split: option.splits)

lemma Human_update_local:
  assumes "mesh_position st (h_mesh h) = mesh_position st' (h_mesh h)"
  shows "Human_position_after dt now rs h st = Human_position_after dt now rs h st'"
proof (cases "isWalking h")
  case False
  with assms show ?thesis
    by (simp add: Human_position_after_def Human_update_def Human_getPosition_def)
next
  case True
  obtain r1 r2 r3 r4 where rs: "rs = (r1, r2, r3, r4)" by (cases rs) auto
  define h1 where "h1 = fst (if now > Human.nextDirectionChange h
                         then Human_chooseNewDirection r1 r2 now h st else (h, st))"
  have h1': "h1 = fst (if now > Human.nextDirectionChange h
                         then Human_chooseNewDirection r1 r2 now h st' else (h, st'))"
    using Human_choose_local[OF assms] by (simp add: h1_def)
  have pos: "Human_position_after dt now rs h s =
        Vector3 (vx (vadd (mesh_position s (h_mesh h))
           (Vector3 (sin (Human.direction h1) * (walkSpeed h1 * dt)) 0 (cos (Human.direction h1) * (walkSpeed h1 * dt)))))
          (sin (real_of_int now * 0.01) * 0.05)
          (vz (vadd (mesh_position s (h_mesh h))
           (Vector3 (sin (Human.direction h1) * (walkSpeed h1 * dt)) 0 (cos (Human.direction h1) * (walkSpeed h1 * dt)))))"
    if "h1 = fst (if now > Human.nextDirectionChange h
                         then Human_chooseNewDirection r1 r2 now h s else (h, s))" for s
    using True that
    by (simp add: Human_position_after_def Human_update_def rs Let_def split_beta Human_choose_ids
        Human_getPosition_def split: option.splits)
  show ?thesis
    using pos[of st] pos[of st'] h1' assms by (simp add: h1_def)
qed

lemma humans_iteration:
  assumes n: "n < length (humans (npcManager g))"
  shows "\<exists>g'. humans_loop rnd now dt (Suc n) g = humans_loop rnd now dt n g' \<and>
          (\<forall>m. m \<noteq> h_mesh (humans (npcManager g) ! n) \<longrightarrow>
                 mesh_position (objects g') m = mesh_position (objects g) m) \<and>
          animals (npcManager g') = animals (npcManager g) \<and>
          take n (humans (npcManager g')) = take n (humans (npcManager g)) \<and>
          (if human_stays rnd now dt (objects g) (n, humans (npcManager g) ! n)
           then map h_body (drop n (humans (npcManager g')))
                  = h_body (humans (npcManager g) ! n) # map h_body (drop (Suc n) (humans (npcManager g))) \<and>
                physicsBodies (physicsWorld g') = physicsBodies (physicsWorld g) \<and>
                physicsWorld g' = physicsWorld g
           else drop n (humans (npcManager g')) = drop (Suc n) (humans (npcManager g)) \<and>
                physicsBodies (physicsWorld g')
                  = physicsBodies (physicsWorld g) - {h_body (humans (npcManager g) ! n)} \<and>
                physicsWorld g'
                  = removeBody (ABody (h_body (humans (npcManager g) ! n))) (physicsWorld g))"
proof -
  let ?hs = "humans (npcManager g)"
  let ?h = "?hs ! n"
  let ?u = "Human_update dt now (rnd n) ?h (objects g)"
  let ?g1 = "g\<lparr>objects := snd ?u, npcManager := (npcManager g)\<lparr>humans := ?hs[n := fst ?u]\<rparr>\<rparr>"
  have pos: "Human_getPosition (fst ?u) (snd ?u) = Human_position_after dt now (rnd n) ?h (objects g)"
    by (simp add: Human_position_after_def split_beta)
  have other: "m \<noteq> h_mesh ?h \<Longrightarrow> mesh_position (snd ?u) m = mesh_position (objects g) m" for m
    by (rule Human_update_other_mesh)
  have dropn: "drop n (?hs[n := x]) = x # drop (Suc n) ?hs" for x
    using n by (simp add: drop_update_swap[symmetric] Cons_nth_drop_Suc[symmetric] upd_conv_take_nth_drop)
  show ?thesis
  proof (cases "human_stays rnd now dt (objects g) (n, ?h)")
    case False
    then have far: "vlength (Human_getPosition (fst ?u) (snd ?u)) > 150"
      by (simp add: human_stays_def pos)
    have eq: "humans_loop rnd now dt (Suc n) g = humans_loop rnd now dt n (removeHuman n ?g1)"
      using far by (simp add: Let_def split_beta)
    have "take n (humans (npcManager (removeHuman n ?g1))) = take n ?hs"
      using n by (simp add: removeHuman_def Let_def)
    moreover have "drop n (humans (npcManager (removeHuman n ?g1))) = drop (Suc n) ?hs"
      using n by (simp add: removeHuman_def Let_def)
    moreover have "physicsBodies (physicsWorld (removeHuman n ?g1))
                     = physicsBodies (physicsWorld g) - {h_body ?h}"
      using n by (simp add: removeHuman_def Let_def Human_dispose_def Human_update_ids
          split: option.splits)
    moreover have "physicsWorld (removeHuman n ?g1) = removeBody (ABody (h_body ?h)) (physicsWorld g)"
      using n by (simp add: removeHuman_def Let_def Human_dispose_def Human_update_ids
          del: removeBody.simps)
    moreover have "\<forall>m. m \<noteq> h_mesh ?h \<longrightarrow>
                     mesh_position (objects (removeHuman n ?g1)) m = mesh_position (objects g) m"
      using other by (simp add: removeHuman_def Let_def)
    moreover have "animals (npcManager (removeHuman n ?g1)) = animals (npcManager g)"
      by (simp add: removeHuman_def Let_def)
    ultimately show ?thesis using False eq by (intro exI[of _ "removeHuman n ?g1"]) simp
  next
    case True
    then have near: "\<not> vlength (Human_getPosition (fst ?u) (snd ?u)) > 150"
      by (simp add: human_stays_def pos)
    obtain g' h' where eq: "humans_loop rnd now dt (Suc n) g = humans_loop rnd now dt n g'"
      and g': "g' = ?g1\<lparr>objects := objects g', npcManager := (npcManager ?g1)\<lparr>humans := ?hs[n := h']\<rparr>\<rparr>"
      and h': "h_body h' = h_body ?h"
      and o': "mesh_position (objects g') = mesh_position (snd ?u)"
    proof (cases "playerVehicle (npcManager g)")
      case None
      show ?thesis
        by (rule that[of ?g1 "fst ?u"]) (use near None in \<open>simp_all add: Let_def split_beta Human_update_ids\<close>)
    next
      case (Some pv)
      show ?thesis
      proof (cases "distanceTo (Human_getPosition (fst ?u) (snd ?u)) (mesh_position (snd ?u) pv)
                      < panicRadius (npcManager g)")
        case False
        show ?thesis
          by (rule that[of ?g1 "fst ?u"])
             (use near Some False in \<open>simp_all add: Let_def split_beta Human_update_ids\<close>)
      next
        case True
        let ?p = "Human_panic (mesh_position (snd ?u) pv) now (fst ?u) (snd ?u)"
        show ?thesis
          by (rule that[of "?g1\<lparr>objects := snd ?p,
                 npcManager := (npcManager ?g1)\<lparr>humans := (humans (npcManager ?g1))[n := fst ?p]\<rparr>\<rparr>" "fst ?p"])
             (use near Some True in \<open>simp_all add: Let_def split_beta Human_update_ids Human_panic_ids\<close>)
      qed
    qed
    have "take n (humans (npcManager g')) = take n ?hs"
      by (subst g') simp
    moreover have "map h_body (drop n (humans (npcManager g'))) = h_body ?h # map h_body (drop (Suc n) ?hs)"
      by (subst g') (simp add: dropn h')
    moreover have "physicsBodies (physicsWorld g') = physicsBodies (physicsWorld g)"
      by (subst g') simp
    moreover have "physicsWorld g' = physicsWorld g"
      by (subst g') simp
    moreover have "\<forall>m. m \<noteq> h_mesh ?h \<longrightarrow> mesh_position (objects g') m = mesh_position (objects g) m"
      using other by (simp add: o')
    moreover have "animals (npcManager g') = animals (npcManager g)"
      by (subst g') simp
    ultimately show ?thesis using True eq by (intro exI[of _ g']) simp
  qed
qed

lemma humans_loop_survivors:
  assumes "n \<le> length (humans (npcManager g))"
    and "distinct (map h_mesh (take n (humans (npcManager g))))"
  shows "map h_body (humans (npcManager (humans_loop rnd now dt n g)))
           = map (\<lambda>ih. h_body (snd ih))
               (filter (human_stays rnd now dt (objects g)) (zip [0..<n] (take n (humans (npcManager g)))))
             @ map h_body (drop n (humans (npcManager g))) \<and>
         physicsBodies (physicsWorld (humans_loop rnd now dt n g))
           = physicsBodies (physicsWorld g)
             - (\<lambda>ih. h_body (snd ih)) `
                 set (filter (\<lambda>ih. \<not> human_stays rnd now dt (objects g) ih)
                        (zip [0..<n] (take n (humans (npcManager g))))) \<and>
         animals (npcManager (humans_loop rnd now dt n g)) = animals (npcManager g) \<and>
         (\<forall>m. m \<notin> h_mesh ` set (take n (humans (npcManager g))) \<longrightarrow>
            mesh_position (objects (humans_loop rnd now dt n g)) m = mesh_position (objects g) m) \<and>
         physicsWorld (humans_loop rnd now dt n g)
           = foldr (\<lambda>ih. removeBody (ABody (h_body (snd ih))))
               (filter (\<lambda>ih. \<not> human_stays rnd now dt (objects g) ih)
                  (zip [0..<n] (take n (humans (npcManager g)))))
               (physicsWorld g)"
  using assms
proof (induction n arbitrary: g)
  case 0
  then show ?case by simp
next
  case (Suc n)
  let ?hs = "humans (npcManager g)"
  let ?h = "?hs ! n"
  from Suc.prems(1) have n: "n < length ?hs" by simp
  from humans_iteration[OF n, of rnd now dt] obtain g' where
    eq: "humans_loop rnd now dt (Suc n) g = humans_loop rnd now dt n g'"
    and other: "\<And>m. m \<noteq> h_mesh ?h \<Longrightarrow> mesh_position (objects g') m = mesh_position (objects g) m"
    and oth: "animals (npcManager g') = animals (npcManager g)"
    and tk: "take n (humans (npcManager g')) = take n ?hs"
    and it: "if human_stays rnd now dt (objects g) (n, ?h)
           then map h_body (drop n (humans (npcManager g')))
                  = h_body ?h # map h_body (drop (Suc n) ?hs) \<and>
                physicsBodies (physicsWorld g') = physicsBodies (physicsWorld g) \<and>
                physicsWorld g' = physicsWorld g
           else drop n (humans (npcManager g')) = drop (Suc n) ?hs \<and>
                physicsBodies (physicsWorld g') = physicsBodies (physicsWorld g) - {h_body ?h} \<and>
                physicsWorld g' = removeBody (ABody (h_body ?h)) (physicsWorld g)"
    by blast
  have len: "n \<le> length (humans (npcManager g'))"
  proof -
    have "length (take n (humans (npcManager g'))) = n" using tk n by simp
    then show ?thesis by simp
  qed
  have tS: "take (Suc n) ?hs = take n ?hs @ [?h]"
    using n by (simp add: take_Suc_conv_app_nth)
  from Suc.prems(2) have d: "distinct (map h_mesh (take n ?hs))"
    and fresh: "h_mesh ?h \<notin> h_mesh ` set (take n ?hs)"
    by (simp_all add: tS)
  have same: "human_stays rnd now dt (objects g') ih = human_stays rnd now dt (objects g) ih"
    if "ih \<in> set (zip [0..<n] (take n ?hs))" for ih
  proof -
    obtain i h where ih: "ih = (i, h)" by (cases ih)
    from that ih have "h \<in> set (take n ?hs)" by (auto dest: set_zip_rightD)
    with fresh have "h_mesh h \<noteq> h_mesh ?h" by (metis imageI)
    from Human_update_local[OF other[OF this, symmetric], of dt now "rnd i"]
    show ?thesis by (simp add: ih human_stays_def)
  qed
  have f1: "filter (human_stays rnd now dt (objects g')) (zip [0..<n] (take n ?hs))
            = filter (human_stays rnd now dt (objects g)) (zip [0..<n] (take n ?hs))"
    by (rule filter_cong) (simp_all add: same)
  have f2: "filter (\<lambda>ih. \<not> human_stays rnd now dt (objects g') ih) (zip [0..<n] (take n ?hs))
            = filter (\<lambda>ih. \<not> human_stays rnd now dt (objects g) ih) (zip [0..<n] (take n ?hs))"
    by (rule filter_cong) (simp_all add: same)
  have d': "distinct (map h_mesh (take n (humans (npcManager g'))))"
    using d tk by simp
  note ih = Suc.IH[of g', OF len d', unfolded tk f1 f2]
  have IH: "map h_body (humans (npcManager (humans_loop rnd now dt n g')))
           = map (\<lambda>ih. h_body (snd ih))
               (filter (human_stays rnd now dt (objects g)) (zip [0..<n] (take n ?hs)))
             @ map h_body (drop n (humans (npcManager g')))"
        "physicsBodies (physicsWorld (humans_loop rnd now dt n g'))
           = physicsBodies (physicsWorld g')
             - (\<lambda>ih. h_body (snd ih)) `
                 set (filter (\<lambda>ih. \<not> human_stays rnd now dt (objects g) ih)
                        (zip [0..<n] (take n ?hs)))"
        "animals (npcManager (humans_loop rnd now dt n g')) = animals (npcManager g')"
        "\<And>m. m \<notin> h_mesh ` set (take n ?hs) \<Longrightarrow>
            mesh_position (objects (humans_loop rnd now dt n g')) m = mesh_position (objects g') m"
        "physicsWorld (humans_loop rnd now dt n g')
           = foldr (\<lambda>ih. removeBody (ABody (h_body (snd ih))))
               (filter (\<lambda>ih. \<not> human_stays rnd now dt (objects g) ih) (zip [0..<n] (take n ?hs)))
               (physicsWorld g')"
    using ih by blast+
  have fr: "mesh_position (objects (humans_loop rnd now dt n g')) m = mesh_position (objects g) m"
    if "m \<notin> h_mesh ` set (take (Suc n) ?hs)" for m
  proof -
    from that have "m \<notin> h_mesh ` set (take n ?hs)" "m \<noteq> h_mesh ?h"
      by (simp_all add: tS)
    with IH(4)[of m] other[of m] show ?thesis by simp
  qed
  show ?case
  proof (cases "human_stays rnd now dt (objects g) (n, ?h)")
    case True
    with it IH(1,2,3,5) oth fr show ?thesis
      unfolding eq zip_upt_take_Suc[OF n] by (simp del: removeBody.simps)
  next
    case False
    with it IH(1,2,3,5) oth fr show ?thesis
      unfolding eq zip_upt_take_Suc[OF n] by (auto simp del: removeBody.simps)
  qed
qed

lemma Animal_choose_ids:
  "a_mesh (fst (Animal_chooseNewDirection rs now a st)) = a_mesh a"
  "a_body (fst (Animal_chooseNewDirection rs now a st)) = a_body a"
  "mesh_position (snd (Animal_chooseNewDirection rs now a st)) = mesh_position st"
  by (simp_all add: Animal_chooseNewDirection_def Let_def split_beta)

lemma Animal_choose_local:
  assumes "mesh_position st (a_mesh a) = mesh_position st' (a_mesh a)"
  shows "fst (Animal_chooseNewDirection rs now a st) = fst (Animal_chooseNewDirection rs now a st')"
  using assms by (simp add: Animal_chooseNewDirection_def Let_def split_beta)

lemma Animal_panic_ids:
  "a_mesh (fst (Animal_flee t now a st)) = a_mesh a"
  "a_body (fst (Animal_flee t now a st)) = a_body a"
  "mesh_position (snd (Animal_flee t now a st)) = mesh_position st"
  by (simp_all add: Animal_flee_def Let_def)

lemma Animal_turn_ids:
  "a_mesh (fst (Animal_turn now rnd a st)) = a_mesh a"
  "a_body (fst (Animal_turn now rnd a st)) = a_body a"
  "mesh_position (snd (Animal_turn now rnd a st)) = mesh_position st"
  by (simp_all add: Animal_turn_def Let_def split_beta Animal_choose_ids)

lemma Animal_turn_local:
  assumes "mesh_position st (a_mesh a) = mesh_position st' (a_mesh a)"
  shows "fst (Animal_turn now rnd a st) = fst (Animal_turn now rnd a st')"
  using Animal_choose_local[OF assms] by (simp add: Animal_turn_def Let_def split_beta)

lemma Animal_update_ids:
  "a_mesh (fst (Animal_update dt now rnd a st)) = a_mesh a"
  "a_body (fst (Animal_update dt now rnd a st)) = a_body a"
  by (simp_all add: Animal_update_def Let_def split_beta Animal_turn_ids)

lemma Animal_update_mesh:
  "mesh_position (snd (Animal_update dt now rnd a st)) =
     (if \<not> isMoving a then mesh_position st
      else (mesh_position st)
             (a_mesh a := Animal_step dt now (fst (Animal_turn now rnd a st)) (mesh_position st (a_mesh a))))"
  by (simp add: Animal_update_def Let_def split_beta Animal_turn_ids)

lemma Animal_update_other_mesh:
  assumes "m \<noteq> a_mesh a"
  shows "mesh_position (snd (Animal_update dt now rnd a st)) m = mesh_position st m"
  using assms by (simp add: Animal_update_mesh)

lemma Animal_update_local:
  assumes "mesh_position st (a_mesh a) = mesh_position st' (a_mesh a)"
  shows "Animal_position_after dt now rnd a st = Animal_position_after dt now rnd a st'"
  using assms Animal_turn_local[OF assms, of now rnd]
  by (simp add: Animal_position_after_def split_beta Animal_getPosition_def Animal_update_mesh
      Animal_update_ids)

lemma animals_iteration:
  assumes n: "n < length (animals (npcManager g))"
  shows "\<exists>g'. animals_loop rnd now dt (Suc n) g = animals_loop rnd now dt n g' \<and>
          (\<forall>m. m \<noteq> a_mesh (animals (npcManager g) ! n) \<longrightarrow>
                 mesh_position (objects g') m = mesh_position (objects g) m) \<and>
          humans (npcManager g') = humans (npcManager g) \<and>
          take n (animals (npcManager g')) = take n (animals (npcManager g)) \<and>
          (if animal_stays rnd now dt (objects g) (n, animals (npcManager g) ! n)
           then map a_body (drop n (animals (npcManager g')))
                  = a_body (animals (npcManager g) ! n) # map a_body (drop (Suc n) (animals (npcManager g))) \<and>
                physicsBodies (physicsWorld g') = physicsBodies (physicsWorld g) \<and>
                physicsWorld g' = physicsWorld g
           else drop n (animals (npcManager g')) = drop (Suc n) (animals (npcManager g)) \<and>
                physicsBodies (physicsWorld g')
                  = physicsBodies (physicsWorld g) - {a_body (animals (npcManager g) ! n)} \<and>
                physicsWorld g'
                  = removeBody (ABody (a_body (animals (npcManager g) ! n))) (physicsWorld g))"
proof -
  let ?as = "animals (npcManager g)"
  let ?a = "?as ! n"
  let ?u = "Animal_update dt now (rnd n) ?a (objects g)"
  let ?g1 = "g\<lparr>objects := snd ?u, npcManager := (npcManager g)\<lparr>animals := ?as[n := fst ?u]\<rparr>\<rparr>"
  have pos: "Animal_getPosition (fst ?u) (snd ?u) = Animal_position_after dt now (rnd n) ?a (objects g)"
    by (simp add: Animal_position_after_def split_beta)
  have other: "m \<noteq> a_mesh ?a \<Longrightarrow> mesh_position (snd ?u) m = mesh_position (objects g) m" for m
    by (rule Animal_update_other_mesh)
  have dropn: "drop n (?as[n := x]) = x # drop (Suc n) ?as" for x
    using n by (simp add: drop_update_swap[symmetric] Cons_nth_drop_Suc[symmetric] upd_conv_take_nth_drop)
  show ?thesis
  proof (cases "animal_stays rnd now dt (objects g) (n, ?a)")
    case False
    then have far: "vlength (Animal_getPosition (fst ?u) (snd ?u)) > 150"
      by (simp add: animal_stays_def pos)
    have eq: "animals_loop rnd now dt (Suc n) g = animals_loop rnd now dt n (removeAnimal n ?g1)"
      using far by (simp add: Let_def split_beta)
    have "take n (animals (npcManager (removeAnimal n ?g1))) = take n ?as"
      using n by (simp add: removeAnimal_def Let_def)
    moreover have "drop n (animals (npcManager (removeAnimal n ?g1))) = drop (Suc n) ?as"
      using n by (simp add: removeAnimal_def Let_def)
    moreover have "physicsBodies (physicsWorld (removeAnimal n ?g1))
                     = physicsBodies (physicsWorld g) - {a_body ?a}"
      using n by (simp add: removeAnimal_def Let_def Animal_dispose_def Animal_update_ids
          split: option.splits)
    moreover have "physicsWorld (removeAnimal n ?g1) = removeBody (ABody (a_body ?a)) (physicsWorld g)"
      using n by (simp add: removeAnimal_def Let_def Animal_dispose_def Animal_update_ids
          del: removeBody.simps)
    moreover have "\<forall>m. m \<noteq> a_mesh ?a \<longrightarrow>
                     mesh_position (objects (removeAnimal n ?g1)) m = mesh_position (objects g) m"
      using other by (simp add: removeAnimal_def Let_def)
    moreover have "humans (npcManager (removeAnimal n ?g1)) = humans (npcManager g)"
      by (simp add: removeAnimal_def Let_def)
    ultimately show ?thesis using False eq by (intro exI[of _ "removeAnimal n ?g1"]) simp
  next
    case True
    then have near: "\<not> vlength (Animal_getPosition (fst ?u) (snd ?u)) > 150"
      by (simp add: animal_stays_def pos)
    obtain g' a' where eq: "animals_loop rnd now dt (Suc n) g = animals_loop rnd now dt n g'"
      and g': "g' = ?g1\<lparr>objects := objects g', npcManager := (npcManager ?g1)\<lparr>animals := ?as[n := a']\<rparr>\<rparr>"
      and a': "a_body a' = a_body ?a"
      and o': "mesh_position (objects g') = mesh_position (snd ?u)"
    proof (cases "playerVehicle (npcManager g)")
      case None
      show ?thesis
        by (rule that[of ?g1 "fst ?u"]) (use near None in \<open>simp_all add: Let_def split_beta Animal_update_ids\<close>)
    next
      case (Some pv)
      show ?thesis
      proof (cases "distanceTo (Animal_getPosition (fst ?u) (snd ?u)) (mesh_position (snd ?u) pv)
                      < panicRadius (npcManager g)")
        case False
        show ?thesis
          by (rule that[of ?g1 "fst ?u"])
             (use near Some False in \<open>simp_all add: Let_def split_beta Animal_update_ids\<close>)
      next
        case True
        let ?p = "Animal_flee (mesh_position (snd ?u) pv) now (fst ?u) (snd ?u)"
        show ?thesis
          by (rule that[of "?g1\<lparr>objects := snd ?p,
                 npcManager := (npcManager ?g1)\<lparr>animals := (animals (npcManager ?g1))[n := fst ?p]\<rparr>\<rparr>" "fst ?p"])
             (use near Some True in \<open>simp_all add: Let_def split_beta Animal_update_ids Animal_panic_ids\<close>)
      qed
    qed
    have "take n (animals (npcManager g')) = take n ?as"
      by (subst g') simp
    moreover have "map a_body (drop n (animals (npcManager g'))) = a_body ?a # map a_body (drop (Suc n) ?as)"
      by (subst g') (simp add: dropn a')
    moreover have "physicsBodies (physicsWorld g') = physicsBodies (physicsWorld g)"
      by (subst g') simp
    moreover have "physicsWorld g' = physicsWorld g"
      by (subst g') simp
    moreover have "\<forall>m. m \<noteq> a_mesh ?a \<longrightarrow> mesh_position (objects g') m = mesh_position (objects g) m"
      using other by (simp add: o')
    moreover have "humans (npcManager g') = humans (npcManager g)"
      by (subst g') simp
    ultimately show ?thesis using True eq by (intro exI[of _ g']) simp
  qed
qed

lemma animals_loop_survivors:
  assumes "n \<le> length (animals (npcManager g))"
    and "distinct (map a_mesh (take n (animals (npcManager g))))"
  shows "map a_body (animals (npcManager (animals_loop rnd now dt n g)))
           = map (\<lambda>ia. a_body (snd ia))
               (filter (animal_stays rnd now dt (objects g)) (zip [0..<n] (take n (animals (npcManager g)))))
             @ map a_body (drop n (animals (npcManager g))) \<and>
         physicsBodies (physicsWorld (animals_loop rnd now dt n g))
           = physicsBodies (physicsWorld g)
             - (\<lambda>ia. a_body (snd ia)) `
                 set (filter (\<lambda>ia. \<not> animal_stays rnd now dt (objects g) ia)
                        (zip [0..<n] (take n (animals (npcManager g))))) \<and>
         humans (npcManager (animals_loop rnd now dt n g)) = humans (npcManager g) \<and>
         (\<forall>m. m \<notin> a_mesh ` set (take n (animals (npcManager g))) \<longrightarrow>
            mesh_position (objects (animals_loop rnd now dt n g)) m = mesh_position (objects g) m) \<and>
         physicsWorld (animals_loop rnd now dt n g)
           = foldr (\<lambda>ia. removeBody (ABody (a_body (snd ia))))
               (filter (\<lambda>ia. \<not> animal_stays rnd now dt (objects g) ia)
                  (zip [0..<n] (take n (animals (npcManager g)))))
               (physicsWorld g)"
  using assms
proof (induction n arbitrary: g)
  case 0
  then show ?case by simp
next
  case (Suc n)
  let ?as = "animals (npcManager g)"
  let ?a = "?as ! n"
  from Suc.prems(1) have n: "n < length ?as" by simp
  from animals_iteration[OF n, of rnd now dt] obtain g' where
    eq: "animals_loop rnd now dt (Suc n) g = animals_loop rnd now dt n g'"
    and other: "\<And>m. m \<noteq> a_mesh ?a \<Longrightarrow> mesh_position (objects g') m = mesh_position (objects g) m"
    and oth: "humans (npcManager g') = humans (npcManager g)"
    and tk: "take n (animals (npcManager g')) = take n ?as"
    and it: "if animal_stays rnd now dt (objects g) (n, ?a)
           then map a_body (drop n (animals (npcManager g')))
                  = a_body ?a # map a_body (drop (Suc n) ?as) \<and>
                physicsBodies (physicsWorld g') = physicsBodies (physicsWorld g) \<and>
                physicsWorld g' = physicsWorld g
           else drop n (animals (npcManager g')) = drop (Suc n) ?as \<and>
                physicsBodies (physicsWorld g') = physicsBodies (physicsWorld g) - {a_body ?a} \<and>
                physicsWorld g' = removeBody (ABody (a_body ?a)) (physicsWorld g)"
    by blast
  have len: "n \<le> length (animals (npcManager g'))"
  proof -
    have "length (take n (animals (npcManager g'))) = n" using tk n by simp
    then show ?thesis by simp
  qed
  have tS: "take (Suc n) ?as = take n ?as @ [?a]"
    using n by (simp add: take_Suc_conv_app_nth)
  from Suc.prems(2) have d: "distinct (map a_mesh (take n ?as))"
    and fresh: "a_mesh ?a \<notin> a_mesh ` set (take n ?as)"
    by (simp_all add: tS)
  have same: "animal_stays rnd now dt (objects g') ia = animal_stays rnd now dt (objects g) ia"
    if "ia \<in> set (zip [0..<n] (take n ?as))" for ia
  proof -
    obtain i a where ia: "ia = (i, a)" by (cases ia)
    from that ia have "a \<in> set (take n ?as)" by (auto dest: set_zip_rightD)
    with fresh have "a_mesh a \<noteq> a_mesh ?a" by (metis imageI)
    from Animal_update_local[OF other[OF this, symmetric], of dt now "rnd i"]
    show ?thesis by (simp add: ia animal_stays_def)
  qed
  have f1: "filter (animal_stays rnd now dt (objects g')) (zip [0..<n] (take n ?as))
            = filter (animal_stays rnd now dt (objects g)) (zip [0..<n] (take n ?as))"
    by (rule filter_cong) (simp_all add: same)
  have f2: "filter (\<lambda>ia. \<not> animal_stays rnd now dt (objects g') ia) (zip [0..<n] (take n ?as))
            = filter (\<lambda>ia. \<not> animal_stays rnd now dt (objects g) ia) (zip [0..<n] (take n ?as))"
    by (rule filter_cong) (simp_all add: same)
  have d': "distinct (map a_mesh (take n (animals (npcManager g'))))"
    using d tk by simp
  note ih = Suc.IH[of g', OF len d', unfolded tk f1 f2]
  have IH: "map a_body (animals (npcManager (animals_loop rnd now dt n g')))
           = map (\<lambda>ia. a_body (snd ia))
               (filter (animal_stays rnd now dt (objects g)) (zip [0..<n] (take n ?as)))
             @ map a_body (drop n (animals (npcManager g')))"
        "physicsBodies (physicsWorld (animals_loop rnd now dt n g'))
           = physicsBodies (physicsWorld g')
             - (\<lambda>ia. a_body (snd ia)) `
                 set (filter (\<lambda>ia. \<not> animal_stays rnd now dt (objects g) ia)
                        (zip [0..<n] (take n ?as)))"
        "humans (npcManager (animals_loop rnd now dt n g')) = humans (npcManager g')"
        "\<And>m. m \<notin> a_mesh ` set (take n ?as) \<Longrightarrow>
            mesh_position (objects (animals_loop rnd now dt n g')) m = mesh_position (objects g') m"
        "physicsWorld (animals_loop rnd now dt n g')
           = foldr (\<lambda>ia. removeBody (ABody (a_body (snd ia))))
               (filter (\<lambda>ia. \<not> animal_stays rnd now dt (objects g) ia) (zip [0..<n] (take n ?as)))
               (physicsWorld g')"
    using ih by blast+
  have fr: "mesh_position (objects (animals_loop rnd now dt n g')) m = mesh_position (objects g) m"
    if "m \<notin> a_mesh ` set (take (Suc n) ?as)" for m
  proof -
    from that have "m \<notin> a_mesh ` set (take n ?as)" "m \<noteq> a_mesh ?a"
      by (simp_all add: tS)
    with IH(4)[of m] other[of m] show ?thesis by simp
  qed
  show ?case
  proof (cases "animal_stays rnd now dt (objects g) (n, ?a)")
    case True
    with it IH(1,2,3,5) oth fr show ?thesis
      unfolding eq zip_upt_take_Suc[OF n] by (simp del: removeBody.simps)
  next
    case False
    with it IH(1,2,3,5) oth fr show ?thesis
      unfolding eq zip_upt_take_Suc[OF n] by (auto simp del: removeBody.simps)
  qed
qed


lemma NPCManager_update_survivors:
  assumes "g2 = spawn_phase trySpawnHuman trySpawnAnimal now g"
    and "distinct (map h_mesh (humans (npcManager g2)) @ map a_mesh (animals (npcManager g2)))"
  shows "map h_body (humans (npcManager
           (NPCManager_update trySpawnHuman trySpawnAnimal rndH rndA now deltaTime g)))
           = map (\<lambda>ih. h_body (snd ih))
               (filter (human_stays rndH now deltaTime (objects g2))
                  (zip [0..<length (humans (npcManager g2))] (humans (npcManager g2)))) \<and>
         map a_body (animals (npcManager
           (NPCManager_update trySpawnHuman trySpawnAnimal rndH rndA now deltaTime g)))
           = map (\<lambda>ia. a_body (snd ia))
               (filter (animal_stays rndA now deltaTime (objects g2))
                  (zip [0..<length (animals (npcManager g2))] (animals (npcManager g2)))) \<and>
         physicsBodies (physicsWorld
           (NPCManager_update trySpawnHuman trySpawnAnimal rndH rndA now deltaTime g))
           = physicsBodies (physicsWorld g2)
             - (\<lambda>ih. h_body (snd ih)) `
                 set (filter (\<lambda>ih. \<not> human_stays rndH now deltaTime (objects g2) ih)
                        (zip [0..<length (humans (npcManager g2))] (humans (npcManager g2))))
             - (\<lambda>ia. a_body (snd ia)) `
                 set (filter (\<lambda>ia. \<not> animal_stays rndA now deltaTime (objects g2) ia)
                        (zip [0..<length (animals (npcManager g2))] (animals (npcManager g2)))) \<and>
         physicsWorld (NPCManager_update trySpawnHuman trySpawnAnimal rndH rndA now deltaTime g)
           = foldr (\<lambda>ia. removeBody (ABody (a_body (snd ia))))
               (filter (\<lambda>ia. \<not> animal_stays rndA now deltaTime (objects g2) ia)
                  (zip [0..<length (animals (npcManager g2))] (animals (npcManager g2))))
               (foldr (\<lambda>ih. removeBody (ABody (h_body (snd ih))))
                  (filter (\<lambda>ih. \<not> human_stays rndH now deltaTime (objects g2) ih)
                     (zip [0..<length (humans (npcManager g2))] (humans (npcManager g2))))
                  (physicsWorld g2))"
proof -
  let ?hs = "humans (npcManager g2)"
  let ?as = "animals (npcManager g2)"
  let ?g3 = "humans_loop rndH now deltaTime (length ?hs) g2"
  from assms(2) have dh: "distinct (map h_mesh (take (length ?hs) ?hs))"
    and da: "distinct (map a_mesh ?as)"
    and disj: "\<And>a. a \<in> set ?as \<Longrightarrow> a_mesh a \<notin> h_mesh ` set ?hs"
    by auto
  have tkh: "take (length ?hs) ?hs = ?hs" "drop (length ?hs) ?hs = []"
    by simp_all
  note hl = humans_loop_survivors[OF order_refl dh, of rndH now deltaTime,
              unfolded tkh list.map append_Nil2]
  have H: "map h_body (humans (npcManager ?g3))
             = map (\<lambda>ih. h_body (snd ih))
                 (filter (human_stays rndH now deltaTime (objects g2)) (zip [0..<length ?hs] ?hs))"
    "physicsBodies (physicsWorld ?g3)
       = physicsBodies (physicsWorld g2)
         - (\<lambda>ih. h_body (snd ih)) `
             set (filter (\<lambda>ih. \<not> human_stays rndH now deltaTime (objects g2) ih)
                    (zip [0..<length ?hs] ?hs))"
    "animals (npcManager ?g3) = ?as"
    "\<And>m. m \<notin> h_mesh ` set ?hs \<Longrightarrow> mesh_position (objects ?g3) m = mesh_position (objects g2) m"
    "physicsWorld ?g3
       = foldr (\<lambda>ih. removeBody (ABody (h_body (snd ih))))
           (filter (\<lambda>ih. \<not> human_stays rndH now deltaTime (objects g2) ih) (zip [0..<length ?hs] ?hs))
           (physicsWorld g2)"
    using hl by blast+
  have da3: "distinct (map a_mesh (take (length ?as) (animals (npcManager ?g3))))"
    using da by (simp add: H(3))
  have le3: "length ?as \<le> length (animals (npcManager ?g3))"
    by (simp add: H(3))
  have same: "animal_stays rndA now deltaTime (objects ?g3) ia
                = animal_stays rndA now deltaTime (objects g2) ia"
    if "ia \<in> set (zip [0..<length ?as] ?as)" for ia
  proof -
    obtain i a where ia: "ia = (i, a)" by (cases ia)
    from that ia have "a \<in> set ?as" by (auto dest: set_zip_rightD)
    from Animal_update_local[OF H(4)[OF disj[OF this]], of deltaTime now "rndA i"]
    show ?thesis by (simp add: ia animal_stays_def)
  qed
  have f1: "filter (animal_stays rndA now deltaTime (objects ?g3)) (zip [0..<length ?as] ?as)
            = filter (animal_stays rndA now deltaTime (objects g2)) (zip [0..<length ?as] ?as)"
    by (rule filter_cong) (simp_all add: same)
  have f2: "filter (\<lambda>ia. \<not> animal_stays rndA now deltaTime (objects ?g3) ia) (zip [0..<length ?as] ?as)
            = filter (\<lambda>ia. \<not> animal_stays rndA now deltaTime (objects g2) ia) (zip [0..<length ?as] ?as)"
    by (rule filter_cong) (simp_all add: same)
  have tka: "take (length ?as) ?as = ?as" "drop (length ?as) ?as = []"
    by simp_all
  note al = animals_loop_survivors[OF le3 da3, of rndA now deltaTime,
              unfolded H(3) tka f1 f2 list.map append_Nil2]
  have A: "map a_body (animals (npcManager (animals_loop rndA now deltaTime (length ?as) ?g3)))
             = map (\<lambda>ia. a_body (snd ia))
                 (filter (animal_stays rndA now deltaTime (objects g2)) (zip [0..<length ?as] ?as))"
    "physicsBodies (physicsWorld (animals_loop rndA now deltaTime (length ?as) ?g3))
       = physicsBodies (physicsWorld ?g3)
         - (\<lambda>ia. a_body (snd ia)) `
             set (filter (\<lambda>ia. \<not> animal_stays rndA now deltaTime (objects g2) ia)
                    (zip [0..<length ?as] ?as))"
    "humans (npcManager (animals_loop rndA now deltaTime (length ?as) ?g3)) = humans (npcManager ?g3)"
    "physicsWorld (animals_loop rndA now deltaTime (length ?as) ?g3)
       = foldr (\<lambda>ia. removeBody (ABody (a_body (snd ia))))
           (filter (\<lambda>ia. \<not> animal_stays rndA now deltaTime (objects g2) ia) (zip [0..<length ?as] ?as))
           (physicsWorld ?g3)"
    using al by blast+
  have U: "NPCManager_update trySpawnHuman trySpawnAnimal rndH rndA now deltaTime g
             = animals_loop rndA now deltaTime (length ?as) ?g3"
    by (simp add: NPCManager_update_def Let_def assms(1)[symmetric] H(3))
  have "map h_body (humans (npcManager (animals_loop rndA now deltaTime (length ?as) ?g3)))
          = map (\<lambda>ih. h_body (snd ih))
              (filter (human_stays rndH now deltaTime (objects g2)) (zip [0..<length ?hs] ?hs))"
    using A(3) H(1) by simp
  moreover have "physicsBodies (physicsWorld (animals_loop rndA now deltaTime (length ?as) ?g3))
          = physicsBodies (physicsWorld g2)
            - (\<lambda>ih. h_body (snd ih)) `
                set (filter (\<lambda>ih. \<not> human_stays rndH now deltaTime (objects g2) ih)
                       (zip [0..<length ?hs] ?hs))
            - (\<lambda>ia. a_body (snd ia)) `
                set (filter (\<lambda>ia. \<not> animal_stays rndA now deltaTime (objects g2) ia)
                       (zip [0..<length ?as] ?as))"
    using A(2) H(2) by simp
  moreover have "physicsWorld (animals_loop rndA now deltaTime (length ?as) ?g3)
          = foldr (\<lambda>ia. removeBody (ABody (a_body (snd ia))))
              (filter (\<lambda>ia. \<not> animal_stays rndA now deltaTime (objects g2) ia)
                 (zip [0..<length ?as] ?as))
              (foldr (\<lambda>ih. removeBody (ABody (h_body (snd ih))))
                 (filter (\<lambda>ih. \<not> human_stays rndH now deltaTime (objects g2) ih)
                    (zip [0..<length ?hs] ?hs))
                 (physicsWorld g2))"
    using A(4) H(5) by (simp del: removeBody.simps)
  ultimately show ?thesis
    unfolding U using A(1) by blast
qed

lemma sqrt_gt_iff:
  fixes r :: real
  assumes "0 \<le> r"
  shows "r < sqrt v \<longleftrightarrow> r\<^sup>2 < v"
proof -
  have "sqrt (r\<^sup>2) = r" using assms by simp
  then have "r < sqrt v \<longleftrightarrow> sqrt (r\<^sup>2) < sqrt v" by simp
  also have "\<dots> \<longleftrightarrow> r\<^sup>2 < v" by (rule real_sqrt_less_iff)
  finally show ?thesis .
qed

lemmas population_defs =
  far_player_game_def far_player_objects_def near_walker_def far_walker_def stray_dog_def
  no_spawn_def calm_def calm_animals_def resting_objects_def origin_def upright_def unturned_def
  new_NPCManager_def new_PhysicsWorld_def addBody_def world_addBody_def

lemma far_player_spawn:
  "spawn_phase no_spawn no_spawn 0 far_player_game = far_player_game"
  by (simp add: spawn_phase_def population_defs)

lemma far_player_positions:
  "Human_position_after 0.016 0 (calm 0) near_walker (objects far_player_game) = Vector3 210 0 0.024"
  "Human_position_after 0.016 0 (calm 1) far_walker (objects far_player_game) = Vector3 0 0 0.024"
  "Animal_position_after 0.016 0 (calm_animals 0) stray_dog (objects far_player_game) = Vector3 100 0 0.04"
    by (simp_all add: Human_position_after_def Human_update_def Human_getPosition_def
        Animal_position_after_def Animal_update_def Animal_getPosition_def Animal_turn_def
        Animal_step_def population_defs Let_def vadd_def distanceTo_def vlength_def vsub_def)

lemma far_player_stays:
  "\<not> human_stays calm 0 0.016 (objects far_player_game) (0, near_walker)"
  "human_stays calm 0 0.016 (objects far_player_game) (1, far_walker)"
  "animal_stays calm_animals 0 0.016 (objects far_player_game) (0, stray_dog)"
  using far_player_positions
  by (simp_all add: human_stays_def animal_stays_def vlength_def sqrt_gt_iff power2_eq_square)


lemma far_player_tick:
  "map h_body (humans (npcManager
     (NPCManager_update no_spawn no_spawn calm calm_animals 0 0.016 far_player_game))) = [32]"
  "map a_body (animals (npcManager
     (NPCManager_update no_spawn no_spawn calm calm_animals 0 0.016 far_player_game))) = [33]"
  "physicsWorld (NPCManager_update no_spawn no_spawn calm calm_animals 0 0.016 far_player_game)
     = removeBody (ABody 31) (physicsWorld far_player_game)"
proof -
  have d: "distinct (map h_mesh (humans (npcManager far_player_game))
                     @ map a_mesh (animals (npcManager far_player_game)))"
    by (simp add: population_defs)
  have z: "zip [0..<length (humans (npcManager far_player_game))] (humans (npcManager far_player_game))
             = [(0, near_walker), (1, far_walker)]"
          "zip [0..<length (animals (npcManager far_player_game))] (animals (npcManager far_player_game))
             = [(0, stray_dog)]"
    by (simp_all add: far_player_game_def new_NPCManager_def upt_rec)
  have i: "h_body near_walker = 31" "h_body far_walker = 32" "a_body stray_dog = 33"
    by (simp_all add: population_defs)
  have f: "filter (human_stays calm 0 0.016 (objects far_player_game)) [(0, near_walker), (1, far_walker)]
             = [(1, far_walker)]"
          "filter (\<lambda>ih. \<not> human_stays calm 0 0.016 (objects far_player_game) ih)
                  [(0, near_walker), (1, far_walker)] = [(0, near_walker)]"
          "filter (animal_stays calm_animals 0 0.016 (objects far_player_game)) [(0, stray_dog)]
             = [(0, stray_dog)]"
          "filter (\<lambda>ia. \<not> animal_stays calm_animals 0 0.016 (objects far_player_game) ia)
                  [(0, stray_dog)] = []"
    using far_player_stays by simp_all
  note t = NPCManager_update_survivors
         [OF far_player_spawn [symmetric] d, of calm calm_animals "0.016", unfolded z f]
  from t show "map h_body (humans (npcManager
     (NPCManager_update no_spawn no_spawn calm calm_animals 0 0.016 far_player_game))) = [32]"
    by (simp add: i)
  from t show "map a_body (animals (npcManager
     (NPCManager_update no_spawn no_spawn calm calm_animals 0 0.016 far_player_game))) = [33]"
    by (simp add: i)
  from t show "physicsWorld (NPCManager_update no_spawn no_spawn calm calm_animals 0 0.016 far_player_game)
     = removeBody (ABody 31) (physicsWorld far_player_game)"
    by (simp add: i del: removeBody.simps)
qed

lemma far_player_world:
  "world_bodies (physicsWorld far_player_game) = [1, 31, 32, 33]"
  "physicsBodies (physicsWorld far_player_game) = {1, 31, 32, 33}"
  "bodyMeshMap (physicsWorld far_player_game) = [(1, 11), (31, 21), (32, 22), (33, 23)]"
  "meshBodyMap (physicsWorld far_player_game) 21 = Some 31"
  "world_bodies (removeBody (ABody 31) (physicsWorld far_player_game)) = [1, 32, 33]"
  "physicsBodies (removeBody (ABody 31) (physicsWorld far_player_game)) = {1, 32, 33}"
  "bodyMeshMap (removeBody (ABody 31) (physicsWorld far_player_game)) = [(1, 11), (32, 22), (33, 23)]"
  "meshBodyMap (removeBody (ABody 31) (physicsWorld far_player_game)) 21 = None"
  by (auto simp: population_defs world_removeBody_def AList.update_def AList.delete_eq Let_def)

text \<open>
  Claim C7. The code breaks it: both loops of \<open>NPCManager.update\<close> test the length of the
  agent's position, which is its distance to the origin of the world, where the claim
  (and the spawning, which places the agents around the player) has the distance to the
  player. With the player 200 units from the origin, the human 10 units from the player
  is destroyed, being 210 units from the origin: it is taken out of its pool and its body
  out of the list of bodies of the world, out of \<open>physicsBodies\<close> and out of the two maps
  between bodies and meshes. The human at the origin, 200 units from the player, is
  kept, and so is the dog, 100 units from both.
\<close>

theorem culling_ignores_the_player:
  "playerVehicle (npcManager far_player_game) = Some 11 \<and>
   \<not> distanceTo (Human_position_after 0.016 0 (calm 0) near_walker (objects far_player_game))
                 (mesh_position (objects far_player_game) 11) > 150 \<and>
   distanceTo (Human_position_after 0.016 0 (calm 1) far_walker (objects far_player_game))
              (mesh_position (objects far_player_game) 11) > 150 \<and>
   \<not> distanceTo (Animal_position_after 0.016 0 (calm_animals 0) stray_dog (objects far_player_game))
                 (mesh_position (objects far_player_game) 11) > 150 \<and>
   map h_body (humans (npcManager far_player_game)) = [31, 32] \<and>
   map a_body (animals (npcManager far_player_game)) = [33] \<and>
   world_bodies (physicsWorld far_player_game) = [1, 31, 32, 33] \<and>
   physicsBodies (physicsWorld far_player_game) = {1, 31, 32, 33} \<and>
   bodyMeshMap (physicsWorld far_player_game) = [(1, 11), (31, 21), (32, 22), (33, 23)] \<and>
   meshBodyMap (physicsWorld far_player_game) 21 = Some 31 \<and>
   map h_body (humans (npcManager
     (NPCManager_update no_spawn no_spawn calm calm_animals 0 0.016 far_player_game))) = [32] \<and>
   map a_body (animals (npcManager
     (NPCManager_update no_spawn no_spawn calm calm_animals 0 0.016 far_player_game))) = [33] \<and>
   world_bodies (physicsWorld
     (NPCManager_update no_spawn no_spawn calm calm_animals 0 0.016 far_player_game)) = [1, 32, 33] \<and>
   physicsBodies (physicsWorld
     (NPCManager_update no_spawn no_spawn calm calm_animals 0 0.016 far_player_game)) = {1, 32, 33} \<and>
   bodyMeshMap (physicsWorld
     (NPCManager_update no_spawn no_spawn calm calm_animals 0 0.016 far_player_game))
     = [(1, 11), (32, 22), (33, 23)] \<and>
   meshBodyMap (physicsWorld
     (NPCManager_update no_spawn no_spawn calm calm_animals 0 0.016 far_player_game)) 21 = None"
proof -
  have p: "mesh_position (objects far_player_game) 11 = Vector3 200 1 0"
          "playerVehicle (npcManager far_player_game) = Some 11"
          "map h_body (humans (npcManager far_player_game)) = [31, 32]"
          "map a_body (animals (npcManager far_player_game)) = [33]"
    by (simp_all add: population_defs)
  have "\<not> distanceTo (Human_position_after 0.016 0 (calm 0) near_walker (objects far_player_game))
                 (mesh_position (objects far_player_game) 11) > 150"
       "distanceTo (Human_position_after 0.016 0 (calm 1) far_walker (objects far_player_game))
              (mesh_position (objects far_player_game) 11) > 150"
       "\<not> distanceTo (Animal_position_after 0.016 0 (calm_animals 0) stray_dog (objects far_player_game))
                 (mesh_position (objects far_player_game) 11) > 150"
    using far_player_positions
    by (simp_all add: p distanceTo_def vlength_def vsub_def sqrt_gt_iff power2_eq_square)
  with far_player_tick far_player_world p show ?thesis by simp
qed
end
